theory Spec2Isabelle
  imports Complex_Main "HOL-Library.Multiset"
begin

section \<open>Constants and types of App.tsx\<close>

text \<open>
  JavaScript numbers are modelled as mathematical reals (the score, which only ever holds
  0 plus multiples of 20, as an integer): rounding of IEEE doubles is outside the model.
  The fields keep the names of the TypeScript interfaces; where two interfaces share a
  field name the selector is written qualified (\<open>Rocket.progress\<close>, \<open>Tower.alive\<close>).
  An \<open>id\<close> string is kept as a tagged value: the tag is the literal prefix of the
  template string, the argument the number that the source renders into it.
\<close>

definition TARGET_SCORE :: int where
  "TARGET_SCORE = 1000"

definition INITIAL_AMMO :: "real list" where
  "INITIAL_AMMO = [40, 40, 80, 40, 40]"

datatype GameState = START | PLAYING | WON | LOST

datatype Ident =
    Tower_id nat
  | City_id nat
  | Random_id real
  | Impact_id real
  | Exp_id real
  | Chain_id real

record Point =
  x :: real
  y :: real

record Entity = Point +
  id' :: Ident

record Rocket = Entity +
  targetX :: real
  targetY :: real
  speed :: real
  progress :: real

record Interceptor = Entity +
  startX :: real
  startY :: real
  targetX :: real
  targetY :: real
  progress :: real
  speed :: real

record Explosion = Entity +
  radius :: real
  maxRadius :: real
  expanding :: bool
  life :: real

record City = Entity +
  alive :: bool

record Tower = Entity +
  alive :: bool
  ammo :: real
  maxAmmo :: real

record Dimensions =
  width :: real
  height :: real

text \<open>
  \<open>Math.random()\<close> returns a number in the half-open interval from 0 to 1. The type
  \<open>rand01\<close> holds exactly these numbers; the ambient generator is the sequence
  \<open>entropy\<close> of the values it is still going to return.
\<close>

typedef rand01 = "{r::real. 0 \<le> r \<and> r < 1}"
  by (rule exI [of _ 0]) simp

setup_lifting type_definition_rand01

lift_definition rand_zero :: rand01 is "0"
  by simp

lift_definition rand_half :: rand01 is "1 / 2"
  by simp

text \<open>
  The component's state: the two React state cells (\<open>gameState\<close>, \<open>score\<close>), the refs
  that hold the game objects, and the random generator. A call of a React setter is
  modelled as taking effect in program order, which is the order in which React applies
  the queued updates.
\<close>

record World =
  gameState :: GameState
  score :: int
  rockets :: "Rocket list"
  interceptors :: "Interceptor list"
  explosions :: "Explosion list"
  cities :: "City list"
  towers :: "Tower list"
  lastTime :: real
  spawnTimer :: real
  dimensions :: Dimensions
  entropy :: "nat \<Rightarrow> rand01"

section \<open>Utilities\<close>

definition distance :: "'a Point_scheme \<Rightarrow> 'b Point_scheme \<Rightarrow> real" where
  "distance p1 p2 = sqrt ((x p1 - x p2) ^ 2 + (y p1 - y p2) ^ 2)"

definition Math_random :: "World \<Rightarrow> real \<times> World" where
  "Math_random w = (Rep_rand01 (entropy w 0), w\<lparr>entropy := (\<lambda>n. entropy w (Suc n))\<rparr>)"

text \<open>\<open>splice(i, 1)\<close>: remove the element at index \<open>i\<close>.\<close>

definition splice1 :: "nat \<Rightarrow> 'a list \<Rightarrow> 'a list" where
  "splice1 i xs = take i xs @ drop (Suc i) xs"

text \<open>
  \<open>const c = xs.find(p); if (c) c.f = v\<close>: the first element that satisfies \<open>p\<close>, if
  there is one, is updated in place.
\<close>

fun find_assign :: "('a \<Rightarrow> bool) \<Rightarrow> ('a \<Rightarrow> 'a) \<Rightarrow> 'a list \<Rightarrow> 'a list" where
  "find_assign p f [] = []"
| "find_assign p f (a # as) = (if p a then f a # as else a # find_assign p f as)"

section \<open>Initialization\<close>

text \<open>\<open>initGame\<close>; the argument \<open>now\<close> is the value of \<open>performance.now()\<close>.\<close>

definition towerPositions :: "real list" where
  "towerPositions = [0.1, 0.3, 0.5, 0.7, 0.9]"

definition cityPositions :: "real list" where
  "cityPositions = [0.2, 0.4, 0.45, 0.55, 0.6, 0.8]"

definition initGame :: "real \<Rightarrow> World \<Rightarrow> World" where
  "initGame now w =
     (let wd = width (dimensions w); ht = height (dimensions w) in
      w\<lparr>towers := map (\<lambda>(i, pos).
            \<lparr>x = wd * pos, y = ht - 50, id' = Tower_id i, Tower.alive = True,
              ammo = INITIAL_AMMO ! i, maxAmmo = INITIAL_AMMO ! i\<rparr>)
            (enumerate 0 towerPositions),
        cities := map (\<lambda>(i, pos).
            \<lparr>x = wd * pos, y = ht - 40, id' = City_id i, City.alive = True\<rparr>)
            (enumerate 0 cityPositions),
        rockets := [],
        interceptors := [],
        explosions := [],
        score := 0,
        gameState := PLAYING,
        lastTime := now,
        spawnTimer := 0\<rparr>)"

section \<open>The simulation step\<close>

subsection \<open>1. Spawn Rockets\<close>

text \<open>
  \<open>update\<close> reads \<open>score\<close> as a variable of the render that created it. The
  \<open>update\<close> that runs is the one captured by the effect that starts the frame loop,
  and this effect is run again only when \<open>gameState\<close> changes. Every change to
  PLAYING is made by \<open>initGame\<close>, in one batch with \<open>setScore(0)\<close>, so the score
  that the running \<open>update\<close> reads is 0 during the whole run, whatever the score
  cell holds by then.
\<close>

definition closure_score :: int where
  "closure_score = 0"

definition spawnRockets :: "real \<Rightarrow> World \<Rightarrow> World" where
  "spawnRockets delta w =
     (let w1 = w\<lparr>spawnTimer := spawnTimer w + delta\<rparr>;
          spawnRate = max 266 (1000 - (real_of_int closure_score / 100) * 66)
      in if spawnTimer w1 > spawnRate then
           let w2 = w1\<lparr>spawnTimer := 0\<rparr>;
               wd = width (dimensions w2);
               targets = map Point.truncate (filter City.alive (cities w2))
                         @ map Point.truncate (filter Tower.alive (towers w2))
           in if length targets > 0 then
                case Math_random w2 of (r1, w3) \<Rightarrow>
                case Math_random w3 of (r2, w4) \<Rightarrow>
                case Math_random w4 of (r3, w5) \<Rightarrow>
                case Math_random w5 of (r4, w6) \<Rightarrow>
                  let target = targets ! nat \<lfloor>r1 * real (length targets)\<rfloor> in
                  w6\<lparr>rockets := rockets w6 @
                    [\<lparr>x = r3 * wd, y = - 20, id' = Random_id r2,
                      Rocket.targetX = x target, Rocket.targetY = y target,
                      Rocket.speed = 0.0015 + r4 * 0.0015 + real_of_int closure_score / 100000,
                      Rocket.progress = 0\<rparr>]\<rparr>
              else w2
         else w1)"

subsection \<open>2. Update Rockets\<close>

definition rocketStep :: "real \<Rightarrow> nat \<Rightarrow> World \<Rightarrow> World" where
  "rocketStep delta i w =
     (let r0 = rockets w ! i;
          rocket = r0\<lparr>Rocket.progress := Rocket.progress r0 + Rocket.speed r0 * (delta / 16.67)\<rparr>;
          w1 = w\<lparr>rockets := (rockets w)[i := rocket]\<rparr>
      in if Rocket.progress rocket \<ge> 1 then
           let w2 = w1\<lparr>cities := find_assign
                       (\<lambda>c. x c = Rocket.targetX rocket \<and> y c = Rocket.targetY rocket)
                       (\<lambda>c. c\<lparr>City.alive := False\<rparr>) (cities w1)\<rparr>;
               w3 = w2\<lparr>towers := find_assign
                       (\<lambda>t. x t = Rocket.targetX rocket \<and> y t = Rocket.targetY rocket)
                       (\<lambda>t. t\<lparr>Tower.alive := False\<rparr>) (towers w2)\<rparr>
           in case Math_random w3 of (r, w4) \<Rightarrow>
             let w5 = w4\<lparr>explosions := explosions w4 @
                        [\<lparr>x = Rocket.targetX rocket, y = Rocket.targetY rocket,
                          id' = Impact_id r, radius = 0, maxRadius = 40,
                          expanding = True, life = 1\<rparr>]\<rparr>;
                 w6 = w5\<lparr>rockets := splice1 i (rockets w5)\<rparr>
             in if list_all (\<lambda>t. \<not> Tower.alive t) (towers w6)
                then w6\<lparr>gameState := LOST\<rparr> else w6
         else w1)"

text \<open>\<open>for (let i = n - 1; i >= 0; i--)\<close>: the body runs at \<open>n - 1\<close>, ..., \<open>0\<close>.\<close>

fun rocketLoop :: "real \<Rightarrow> nat \<Rightarrow> World \<Rightarrow> World" where
  "rocketLoop delta 0 w = w"
| "rocketLoop delta (Suc i) w = rocketLoop delta i (rocketStep delta i w)"

definition updateRockets :: "real \<Rightarrow> World \<Rightarrow> World" where
  "updateRockets delta w = rocketLoop delta (length (rockets w)) w"

subsection \<open>3. Update Interceptors\<close>

definition interceptorStep :: "real \<Rightarrow> nat \<Rightarrow> World \<Rightarrow> World" where
  "interceptorStep delta i w =
     (let i0 = interceptors w ! i;
          intr = i0\<lparr>Interceptor.progress :=
                      Interceptor.progress i0 + Interceptor.speed i0 * (delta / 16.67)\<rparr>;
          w1 = w\<lparr>interceptors := (interceptors w)[i := intr]\<rparr>
      in if Interceptor.progress intr \<ge> 1 then
           case Math_random w1 of (r, w2) \<Rightarrow>
             let w3 = w2\<lparr>explosions := explosions w2 @
                        [\<lparr>x = Interceptor.targetX intr, y = Interceptor.targetY intr,
                          id' = Exp_id r, radius = 0, maxRadius = 50,
                          expanding = True, life = 1\<rparr>]\<rparr>
             in w3\<lparr>interceptors := splice1 i (interceptors w3)\<rparr>
         else w1)"

fun interceptorLoop :: "real \<Rightarrow> nat \<Rightarrow> World \<Rightarrow> World" where
  "interceptorLoop delta 0 w = w"
| "interceptorLoop delta (Suc i) w = interceptorLoop delta i (interceptorStep delta i w)"

definition updateInterceptors :: "real \<Rightarrow> World \<Rightarrow> World" where
  "updateInterceptors delta w = interceptorLoop delta (length (interceptors w)) w"

subsection \<open>4. Update Explosions\<close>

text \<open>The interpolated position of a rocket (\<open>rx\<close>, \<open>ry\<close>).\<close>

definition rocketPos :: "Rocket \<Rightarrow> Point" where
  "rocketPos rocket =
     \<lparr>x = x rocket + (Rocket.targetX rocket - x rocket) * Rocket.progress rocket,
      y = y rocket + (Rocket.targetY rocket - y rocket) * Rocket.progress rocket\<rparr>"

text \<open>
  The state updater passed to \<open>setScore\<close>: it adds 20 and, when the new score
  reaches the target, calls \<open>setGameState('WON')\<close>.
\<close>

definition setScore_kill :: "World \<Rightarrow> World" where
  "setScore_kill w =
     (let newScore = score w + 20;
          w1 = (if newScore \<ge> TARGET_SCORE then w\<lparr>gameState := WON\<rparr> else w)
      in w1\<lparr>score := newScore\<rparr>)"

definition collideStep :: "Explosion \<Rightarrow> nat \<Rightarrow> World \<Rightarrow> World" where
  "collideStep expl j w =
     (let rocket = rockets w ! j;
          p = rocketPos rocket
      in if distance p expl < radius expl then
           let w1 = w\<lparr>rockets := splice1 j (rockets w)\<rparr>;
               w2 = setScore_kill w1
           in case Math_random w2 of (r, w3) \<Rightarrow>
             w3\<lparr>explosions := explosions w3 @
                  [\<lparr>x = x p, y = y p, id' = Chain_id r, radius = 0, maxRadius = 40,
                    expanding = True, life = 1\<rparr>]\<rparr>
         else w)"

fun collideLoop :: "Explosion \<Rightarrow> nat \<Rightarrow> World \<Rightarrow> World" where
  "collideLoop expl 0 w = w"
| "collideLoop expl (Suc j) w = collideLoop expl j (collideStep expl j w)"

text \<open>
  The first part of the body of the explosion loop: the radius grows or shrinks; the
  result is \<open>None\<close> when the source removes the explosion and continues with the
  next one.
\<close>

definition advanceExplosion :: "real \<Rightarrow> Explosion \<Rightarrow> Explosion option" where
  "advanceExplosion delta e0 =
     (if expanding e0 then
        let e1 = e0\<lparr>radius := radius e0 + 1.5 * (delta / 16.67)\<rparr>
        in Some (if radius e1 \<ge> maxRadius e1 then e1\<lparr>expanding := False\<rparr> else e1)
      else
        let e1 = e0\<lparr>radius := radius e0 - 0.8 * (delta / 16.67)\<rparr>
        in if radius e1 \<le> 0 then None else Some e1)"

definition explosionStep :: "real \<Rightarrow> nat \<Rightarrow> World \<Rightarrow> World" where
  "explosionStep delta i w =
     (case advanceExplosion delta (explosions w ! i) of
        None \<Rightarrow> w\<lparr>explosions := splice1 i (explosions w)\<rparr>
      | Some expl \<Rightarrow>
          let w1 = w\<lparr>explosions := (explosions w)[i := expl]\<rparr>
          in collideLoop expl (length (rockets w1)) w1)"

fun explosionLoop :: "real \<Rightarrow> nat \<Rightarrow> World \<Rightarrow> World" where
  "explosionLoop delta 0 w = w"
| "explosionLoop delta (Suc i) w = explosionLoop delta i (explosionStep delta i w)"

definition updateExplosions :: "real \<Rightarrow> World \<Rightarrow> World" where
  "updateExplosions delta w = explosionLoop delta (length (explosions w)) w"

subsection \<open>The step\<close>

text \<open>
  \<open>update\<close> reads \<open>gameState\<close> as a variable of the render that created it, too;
  the effect is run again at each change of \<open>gameState\<close>, so this is the phase at
  the start of the step.
\<close>

definition update :: "real \<Rightarrow> World \<Rightarrow> World" where
  "update dt w =
     (if gameState w \<noteq> PLAYING then w
      else let delta = min dt 100 in
        updateExplosions delta (updateInterceptors delta (updateRockets delta
          (spawnRockets delta w))))"

section \<open>Input handling\<close>

text \<open>
  \<open>handleCanvasClick\<close>. The argument \<open>canvas\<close> is \<open>None\<close> when the canvas ref is
  empty and otherwise the \<open>left\<close> and \<open>top\<close> of its bounding rectangle;
  \<open>clientX\<close>, \<open>clientY\<close> are the coordinates of the mouse event or of its first touch.
\<close>

definition fireOne :: "Tower \<Rightarrow> real \<Rightarrow> real \<Rightarrow> World \<Rightarrow> World" where
  "fireOne tower px py w =
     (case Math_random w of (r1, w1) \<Rightarrow>
      case Math_random w1 of (r2, w2) \<Rightarrow>
      case Math_random w2 of (r3, w3) \<Rightarrow>
      case Math_random w3 of (r4, w4) \<Rightarrow>
        let offsetX = (r1 - 0.5) * 30;
            offsetY = (r2 - 0.5) * 30
        in w4\<lparr>interceptors := interceptors w4 @
             [\<lparr>x = x tower, y = y tower, id' = Random_id r3,
               startX = x tower, startY = y tower,
               Interceptor.targetX = px + offsetX, Interceptor.targetY = py + offsetY,
               Interceptor.progress = 0, Interceptor.speed = 0.12 + r4 * 0.05\<rparr>]\<rparr>)"

fun fireBurst :: "nat \<Rightarrow> Tower \<Rightarrow> real \<Rightarrow> real \<Rightarrow> World \<Rightarrow> World" where
  "fireBurst 0 tower px py w = w"
| "fireBurst (Suc n) tower px py w = fireBurst n tower px py (fireOne tower px py w)"

definition burstSize :: nat where
  "burstSize = 5"

definition handleCanvasClick :: "(real \<times> real) option \<Rightarrow> real \<Rightarrow> real \<Rightarrow> World \<Rightarrow> World" where
  "handleCanvasClick canvas clientX clientY w =
     (if gameState w \<noteq> PLAYING then w
      else case canvas of
        None \<Rightarrow> w
      | Some (rect_left, rect_top) \<Rightarrow>
          (let px = clientX - rect_left;
               py = clientY - rect_top;
               availableTowers =
                 sort_key (\<lambda>t. distance \<lparr>x = px, y = py\<rparr> t) (filter Tower.alive (towers w))
           in if length availableTowers > 0 then
                let tower = hd availableTowers in fireBurst burstSize tower px py w
              else w))"

section \<open>Rendering\<close>

text \<open>
  The calls that \<open>draw\<close> makes on the 2D context, in order. A gradient object is
  created, given its colour stops and assigned to \<open>fillStyle\<close> before the next one is
  created, so \<open>AddColorStop\<close> and \<open>FillStyleGradient\<close> refer to the gradient
  created last.
\<close>

datatype Cmd =
    ClearRect real real real real
  | CreateLinearGradient real real real real
  | CreateRadialGradient real real real real real real
  | AddColorStop real string
  | FillStyle string
  | FillStyleGradient
  | StrokeStyle string
  | FillRect real real real real
  | Save
  | Restore
  | Translate real real
  | Rotate real
  | BeginPath
  | ClosePath
  | MoveTo real real
  | LineTo real real
  | Fill
  | Stroke
  | Arc real real real real real
  | RoundRect real real real real real
  | ShadowBlur real
  | ShadowColor string
  | LineWidth real
  | LineCap string
  | SetLineDash "real list"

text \<open>\<open>Math.atan2(y, x)\<close> on reals.\<close>

definition Math_atan2 :: "real \<Rightarrow> real \<Rightarrow> real" where
  "Math_atan2 py px =
     (if px > 0 then arctan (py / px)
      else if px < 0 \<and> py \<ge> 0 then arctan (py / px) + pi
      else if px < 0 \<and> py < 0 then arctan (py / px) - pi
      else if py > 0 then pi / 2
      else if py < 0 then - pi / 2
      else 0)"

definition drawGround :: "real \<Rightarrow> real \<Rightarrow> Cmd list" where
  "drawGround wd ht =
     [ClearRect 0 0 wd ht,
      CreateLinearGradient 0 (ht - 30) 0 ht,
      AddColorStop 0 ''#1a1a1a'',
      AddColorStop 1 ''#000000'',
      FillStyleGradient,
      FillRect 0 (ht - 30) wd 30]"

definition drawCity :: "City \<Rightarrow> Cmd list" where
  "drawCity city =
     (if \<not> City.alive city then []
      else
       [Save, Translate (x city) (y city),
        FillStyle ''#4b5563'', BeginPath, MoveTo (- 20) 0, LineTo (- 15) (- 12),
        LineTo 15 (- 12), LineTo 20 0, ClosePath, Fill,
        FillStyle ''#60a5fa'', ShadowBlur 10, ShadowColor ''#3b82f6'', BeginPath,
        Arc 0 (- 6) 3 0 (pi * 2), Fill, ShadowBlur 0,
        FillStyle ''#111827'', FillRect (- 10) (- 8) 20 2,
        StrokeStyle ''#9ca3af'', LineWidth 1, BeginPath, MoveTo 10 (- 12),
        LineTo 10 (- 20), Stroke,
        Restore])"

definition drawTower :: "Tower \<Rightarrow> Cmd list" where
  "drawTower tower =
     (if \<not> Tower.alive tower then []
      else
       [Save, Translate (x tower) (y tower),
        FillStyle ''#4b5563'', BeginPath, RoundRect (- 40) 0 80 30 8, Fill,
        FillStyle ''#374151'', BeginPath, Arc 0 0 24 pi 0, Fill,
        StrokeStyle ''#1f2937'', LineWidth 12, LineCap ''round'', BeginPath,
        MoveTo 0 (- 10), LineTo 0 (- 50), Stroke,
        StrokeStyle ''#4b5563'', LineWidth 4, BeginPath, MoveTo (- 4) (- 20),
        LineTo (- 4) (- 44), Stroke,
        Restore,
        Save, Translate (x tower) (y tower),
        StrokeStyle ''rgba(59, 130, 246, 0.5)'', LineWidth 4, BeginPath,
        Arc 0 0 60 (pi * 1.1) (pi * 1.9), Stroke,
        StrokeStyle ''rgba(59, 130, 246, 0.2)'', LineWidth 8, BeginPath,
        Arc 0 0 62 (pi * 1.1) (pi * 1.9), Stroke,
        Restore,
        Save, Translate (x tower + 35) (y tower + 20),
        StrokeStyle ''#374151'', LineWidth 2,
        FillStyle ''#1f2937'', BeginPath, Arc 0 (- 16) 4 pi 0, Fill,
        BeginPath, Arc 0 (- 15) 3 0 (pi * 2), Stroke,
        StrokeStyle ''#4b5563'', BeginPath, MoveTo 0 (- 12), LineTo 0 (- 4), Stroke,
        BeginPath, MoveTo (- 4) (- 10), LineTo 4 (- 10), Stroke,
        StrokeStyle ''#000000'', LineWidth 1.5, BeginPath, MoveTo 2 (- 10),
        LineTo 8 (- 15), Stroke,
        StrokeStyle ''#4b5563'', LineWidth 2, BeginPath, MoveTo 0 (- 4), LineTo (- 3) 4,
        MoveTo 0 (- 4), LineTo 3 4, Stroke,
        Restore])"

text \<open>One rocket; \<open>rnd\<close> is the value that \<open>Math.random()\<close> returns for the flame.\<close>

definition drawRocket :: "Rocket \<Rightarrow> real \<Rightarrow> Cmd list" where
  "drawRocket rocket rnd =
     (let curX = x rocket + (Rocket.targetX rocket - x rocket) * Rocket.progress rocket;
          curY = y rocket + (Rocket.targetY rocket - y rocket) * Rocket.progress rocket;
          angle = Math_atan2 (Rocket.targetY rocket - y rocket) (Rocket.targetX rocket - x rocket);
          flameSize = (5 + rnd * 5) * 2
      in
       [StrokeStyle ''rgba(255, 69, 0, 0.2)'', SetLineDash [5, 5], BeginPath,
        MoveTo (x rocket) (y rocket), LineTo curX curY, Stroke, SetLineDash [],
        Save, Translate curX curY, Rotate (angle + pi / 2),
        CreateLinearGradient 0 0 0 flameSize,
        AddColorStop 0 ''#ff4500'', AddColorStop 1 ''transparent'', FillStyleGradient,
        BeginPath, MoveTo (- 4) 10, LineTo 0 (10 + flameSize), LineTo 4 10, Fill,
        FillStyle ''#1f2937'', BeginPath, Arc 0 0 6 0 (pi * 2), Fill,
        FillRect (- 12) (- 10) 2 20, FillRect 10 (- 10) 2 20,
        FillRect (- 10) (- 1) 4 2, FillRect 6 (- 1) 4 2,
        FillStyle ''#ef4444'', BeginPath, Arc 0 0 2 0 (pi * 2), Fill,
        Restore])"

fun drawRockets :: "Rocket list \<Rightarrow> World \<Rightarrow> Cmd list \<times> World" where
  "drawRockets [] w = ([], w)"
| "drawRockets (rocket # rs) w =
     (case Math_random w of (rnd, w1) \<Rightarrow>
      case drawRockets rs w1 of (cmds, w2) \<Rightarrow> (drawRocket rocket rnd @ cmds, w2))"

definition drawInterceptor :: "Interceptor \<Rightarrow> Cmd list" where
  "drawInterceptor intr =
     (let curX = startX intr + (Interceptor.targetX intr - startX intr) * Interceptor.progress intr;
          curY = startY intr + (Interceptor.targetY intr - startY intr) * Interceptor.progress intr;
          angle = Math_atan2 (Interceptor.targetY intr - startY intr)
                    (Interceptor.targetX intr - startX intr)
      in
       [StrokeStyle ''rgba(0, 255, 255, 0.4)'', LineWidth 2, BeginPath,
        MoveTo (startX intr) (startY intr), LineTo curX curY, Stroke,
        Save, Translate curX curY, Rotate (angle + pi / 2),
        CreateLinearGradient 0 (- 10) 0 10,
        AddColorStop 0 ''#00ffff'', AddColorStop 1 ''#3b82f6'', FillStyleGradient,
        BeginPath, RoundRect (- 2) (- 15) 4 30 2, Fill,
        ShadowBlur 15, ShadowColor ''#3b82f6'', Stroke,
        Restore,
        StrokeStyle ''#ffffff'', LineWidth 1, BeginPath,
        MoveTo (Interceptor.targetX intr - 5) (Interceptor.targetY intr - 5),
        LineTo (Interceptor.targetX intr + 5) (Interceptor.targetY intr + 5),
        MoveTo (Interceptor.targetX intr + 5) (Interceptor.targetY intr - 5),
        LineTo (Interceptor.targetX intr - 5) (Interceptor.targetY intr + 5),
        Stroke])"

definition drawExplosion :: "Explosion \<Rightarrow> Cmd list" where
  "drawExplosion expl =
     [CreateRadialGradient (x expl) (y expl) 0 (x expl) (y expl) (radius expl),
      AddColorStop 0 ''#ffffff'', AddColorStop 0.4 ''#fbbf24'',
      AddColorStop 1 ''rgba(239, 68, 68, 0)'', FillStyleGradient,
      BeginPath, Arc (x expl) (y expl) (radius expl) 0 (pi * 2), Fill]"

text \<open>
  \<open>draw\<close>; \<open>surface\<close> is false when the canvas or its 2D context is missing. The
  result is the list of calls made on the context and the state afterwards.
\<close>

definition draw :: "bool \<Rightarrow> World \<Rightarrow> Cmd list \<times> World" where
  "draw surface w =
     (if \<not> surface then ([], w)
      else
        let wd = width (dimensions w); ht = height (dimensions w);
            c1 = drawGround wd ht;
            c2 = concat (map drawCity (cities w));
            c3 = concat (map drawTower (towers w))
        in case drawRockets (rockets w) w of (c4, w1) \<Rightarrow>
          let c5 = concat (map drawInterceptor (interceptors w1));
              c6 = concat (map drawExplosion (explosions w1))
          in (c1 @ c2 @ c3 @ c4 @ c5 @ c6, w1))"

section \<open>Frame driver and resize\<close>





section \<open>Notions used to state the properties\<close>

definition advanceRocket :: "real \<Rightarrow> Rocket \<Rightarrow> Rocket" where
  "advanceRocket delta r = r\<lparr>Rocket.progress := Rocket.progress r + Rocket.speed r * (delta / 16.67)\<rparr>"

definition fresh_explosion :: "real \<Rightarrow> real \<Rightarrow> real \<Rightarrow> Explosion \<Rightarrow> bool" where
  "fresh_explosion mr px py e \<longleftrightarrow>
     x e = px \<and> y e = py \<and> radius e = 0 \<and> maxRadius e = mr \<and> expanding e \<and> life e = 1"

definition hits :: "Explosion \<Rightarrow> Rocket \<Rightarrow> bool" where
  "hits e r \<longleftrightarrow> distance (rocketPos r) e < radius e"

definition chain_of :: "Rocket \<Rightarrow> Explosion \<Rightarrow> bool" where
  "chain_of r c \<longleftrightarrow> fresh_explosion 40 (x (rocketPos r)) (y (rocketPos r)) c"

definition live_explosions :: "real \<Rightarrow> Explosion list \<Rightarrow> Explosion list" where
  "live_explosions delta es = List.map_filter (advanceExplosion delta) es"

definition chains_for :: "Rocket list \<Rightarrow> Explosion list \<Rightarrow> bool" where
  "chains_for killed cs \<longleftrightarrow> (\<exists>ks. mset ks = mset killed \<and> list_all2 chain_of ks cs)"

definition arrived :: "real \<Rightarrow> Rocket \<Rightarrow> bool" where
  "arrived delta r \<longleftrightarrow> Rocket.progress (advanceRocket delta r) \<ge> 1"

definition impact_of :: "Rocket \<Rightarrow> Explosion \<Rightarrow> bool" where
  "impact_of r e \<longleftrightarrow> fresh_explosion 40 (Rocket.targetX r) (Rocket.targetY r) e"

definition at_target :: "Rocket \<Rightarrow> 'a Point_scheme \<Rightarrow> bool" where
  "at_target r p \<longleftrightarrow> x p = Rocket.targetX r \<and> y p = Rocket.targetY r"

definition tower_dead_at :: "Rocket \<Rightarrow> Tower list \<Rightarrow> bool" where
  "tower_dead_at r ts \<longleftrightarrow> (\<forall>t. find (at_target r) ts = Some t \<longrightarrow> \<not> Tower.alive t)"

definition city_dead_at :: "Rocket \<Rightarrow> City list \<Rightarrow> bool" where
  "city_dead_at r cs \<longleftrightarrow> (\<forall>c. find (at_target r) cs = Some c \<longrightarrow> \<not> City.alive c)"

definition advanceInterceptor :: "real \<Rightarrow> Interceptor \<Rightarrow> Interceptor" where
  "advanceInterceptor delta n =
     n\<lparr>Interceptor.progress := Interceptor.progress n + Interceptor.speed n * (delta / 16.67)\<rparr>"

definition detonated :: "real \<Rightarrow> Interceptor \<Rightarrow> bool" where
  "detonated delta n \<longleftrightarrow> Interceptor.progress (advanceInterceptor delta n) \<ge> 1"

definition detonation_of :: "Interceptor \<Rightarrow> Explosion \<Rightarrow> bool" where
  "detonation_of n e \<longleftrightarrow> fresh_explosion 50 (Interceptor.targetX n) (Interceptor.targetY n) e"

section \<open>Example states\<close>


definition triple_kill_world :: World where
  "triple_kill_world =
     \<lparr>gameState = PLAYING, score = 980,
      rockets = [\<lparr>x = 10, y = 10, id' = Random_id 0, Rocket.targetX = 10,
                  Rocket.targetY = 500, Rocket.speed = 0.002, Rocket.progress = 0\<rparr>,
                 \<lparr>x = 20, y = 10, id' = Random_id 0, Rocket.targetX = 20,
                  Rocket.targetY = 500, Rocket.speed = 0.002, Rocket.progress = 0\<rparr>,
                 \<lparr>x = 0, y = 5, id' = Random_id 0, Rocket.targetX = 0,
                  Rocket.targetY = 500, Rocket.speed = 0.002, Rocket.progress = 0\<rparr>],
      interceptors = [],
      explosions = [\<lparr>x = 0, y = 0, id' = Exp_id 0, radius = 50, maxRadius = 50,
                     expanding = False, life = 1\<rparr>],
      cities = [],
      towers = [\<lparr>x = 100, y = 500, id' = Tower_id 0, Tower.alive = True, ammo = 40, maxAmmo = 40\<rparr>],
      lastTime = 0, spawnTimer = 0, dimensions = \<lparr>width = 800, height = 600\<rparr>,
      entropy = (\<lambda>n. rand_half)\<rparr>"

definition blast_world :: World where
  "blast_world =
     \<lparr>gameState = PLAYING, score = 0,
      rockets = [\<lparr>x = 10, y = 10, id' = Random_id 0, Rocket.targetX = 10,
                  Rocket.targetY = 500, Rocket.speed = 0.002, Rocket.progress = 0\<rparr>,
                 \<lparr>x = 300, y = 10, id' = Random_id 0, Rocket.targetX = 300,
                  Rocket.targetY = 500, Rocket.speed = 0.002, Rocket.progress = 0\<rparr>,
                 \<lparr>x = 0, y = 5, id' = Random_id 0, Rocket.targetX = 0,
                  Rocket.targetY = 500, Rocket.speed = 0.002, Rocket.progress = 0\<rparr>],
      interceptors = [],
      explosions = [\<lparr>x = 0, y = 0, id' = Exp_id 0, radius = 50, maxRadius = 50,
                     expanding = False, life = 1\<rparr>],
      cities = [],
      towers = [\<lparr>x = 100, y = 500, id' = Tower_id 0, Tower.alive = True, ammo = 40, maxAmmo = 40\<rparr>],
      lastTime = 0, spawnTimer = 0, dimensions = \<lparr>width = 800, height = 600\<rparr>,
      entropy = (\<lambda>n. rand_half)\<rparr>"

definition impact_world :: World where
  "impact_world =
     \<lparr>gameState = PLAYING, score = 0,
      rockets = [\<lparr>x = 300, y = - 20, id' = Random_id 0, Rocket.targetX = 160,
                  Rocket.targetY = 560, Rocket.speed = 0.002, Rocket.progress = 0.999\<rparr>,
                 \<lparr>x = 500, y = - 20, id' = Random_id 0, Rocket.targetX = 80,
                  Rocket.targetY = 550, Rocket.speed = 0.002, Rocket.progress = 0.5\<rparr>],
      interceptors = [], explosions = [],
      cities = [\<lparr>x = 160, y = 560, id' = City_id 0, City.alive = True\<rparr>],
      towers = [\<lparr>x = 80, y = 550, id' = Tower_id 0, Tower.alive = True, ammo = 40, maxAmmo = 40\<rparr>],
      lastTime = 0, spawnTimer = 0, dimensions = \<lparr>width = 800, height = 600\<rparr>,
      entropy = (\<lambda>n. rand_half)\<rparr>"

definition burst_shot :: "Tower \<Rightarrow> real \<Rightarrow> real \<Rightarrow> Interceptor \<Rightarrow> bool" where
  "burst_shot tower px py n \<longleftrightarrow>
     startX n = x tower \<and> startY n = y tower \<and> x n = x tower \<and> y n = y tower \<and>
     \<bar>Interceptor.targetX n - px\<bar> \<le> 15 \<and> \<bar>Interceptor.targetY n - py\<bar> \<le> 15 \<and>
     Interceptor.progress n = 0 \<and>
     0.12 \<le> Interceptor.speed n \<and> Interceptor.speed n < 0.17"

definition tap_world :: World where
  "tap_world =
     \<lparr>gameState = PLAYING, score = 0, rockets = [], interceptors = [], explosions = [],
      cities = [],
      towers = [\<lparr>x = 100, y = 500, id' = Tower_id 0, Tower.alive = True, ammo = 40, maxAmmo = 40\<rparr>],
      lastTime = 0, spawnTimer = 0, dimensions = \<lparr>width = 800, height = 600\<rparr>,
      entropy = (\<lambda>n. rand_half)\<rparr>"

definition won_world :: World where
  "won_world =
     \<lparr>gameState = WON, score = 1000, rockets = [], interceptors = [], explosions = [],
      cities = [],
      towers = [\<lparr>x = 100, y = 500, id' = Tower_id 0, Tower.alive = True, ammo = 40, maxAmmo = 40\<rparr>],
      lastTime = 0, spawnTimer = 0, dimensions = \<lparr>width = 800, height = 600\<rparr>,
      entropy = (\<lambda>n. rand_half)\<rparr>"



definition swelling_world :: World where
  "swelling_world =
     \<lparr>gameState = PLAYING, score = 0, rockets = [], interceptors = [],
      explosions = [\<lparr>x = 200, y = 300, id' = Exp_id 0, radius = 39, maxRadius = 40,
                     expanding = True, life = 1\<rparr>],
      cities = [],
      towers = [\<lparr>x = 100, y = 500, id' = Tower_id 0, Tower.alive = True, ammo = 40, maxAmmo = 40\<rparr>],
      lastTime = 0, spawnTimer = 0, dimensions = \<lparr>width = 800, height = 600\<rparr>,
      entropy = (\<lambda>n. rand_half)\<rparr>"

text \<open>A generator whose first value is 0 and whose later values are 1/2.\<close>

definition zero_then_half :: "nat \<Rightarrow> rand01" where
  "zero_then_half n = (if n = 0 then rand_zero else rand_half)"

definition flame_world :: World where
  "flame_world =
     \<lparr>gameState = PLAYING, score = 0,
      rockets = [\<lparr>x = 300, y = - 20, id' = Random_id 0, Rocket.targetX = 100,
                  Rocket.targetY = 500, Rocket.speed = 0.002, Rocket.progress = 0.5\<rparr>],
      interceptors = [], explosions = [], cities = [], towers = [],
      lastTime = 0, spawnTimer = 0, dimensions = \<lparr>width = 800, height = 600\<rparr>,
      entropy = zero_then_half\<rparr>"


definition crossfire_world :: World where
  "crossfire_world =
     \<lparr>gameState = PLAYING, score = 0,
      rockets = [\<lparr>x = 400, y = - 20, id' = Random_id 0, Rocket.targetX = 80,
                  Rocket.targetY = 550, Rocket.speed = 0.002, Rocket.progress = 0.56\<rparr>,
                 \<lparr>x = 700, y = - 20, id' = Random_id 0, Rocket.targetX = 720,
                  Rocket.targetY = 550, Rocket.speed = 0.002, Rocket.progress = 0.3\<rparr>,
                 \<lparr>x = 150, y = - 20, id' = Random_id 0, Rocket.targetX = 240,
                  Rocket.targetY = 550, Rocket.speed = 0.002, Rocket.progress = 0.56\<rparr>],
      interceptors = [],
      explosions = [\<lparr>x = 200, y = 300, id' = Exp_id 0, radius = 50.8, maxRadius = 50,
                     expanding = False, life = 1\<rparr>],
      cities = [],
      towers = [\<lparr>x = 80, y = 550, id' = Tower_id 0, Tower.alive = True, ammo = 40, maxAmmo = 40\<rparr>,
                \<lparr>x = 240, y = 550, id' = Tower_id 1, Tower.alive = True, ammo = 40, maxAmmo = 40\<rparr>,
                \<lparr>x = 720, y = 550, id' = Tower_id 4, Tower.alive = True, ammo = 40, maxAmmo = 40\<rparr>],
      lastTime = 0, spawnTimer = 0, dimensions = \<lparr>width = 800, height = 600\<rparr>,
      entropy = (\<lambda>n. rand_half)\<rparr>"

section \<open>The loops of the step\<close>

lemma splice1_take: "i \<le> length xs \<Longrightarrow> take i (splice1 i xs) = take i xs"
  by (simp add: splice1_def)

lemma splice1_drop: "drop i (splice1 i xs) = drop (Suc i) xs"
  by (simp add: splice1_def drop_take min_def)

lemma splice1_update: "splice1 i (xs[i := a]) = splice1 i xs"
  by (simp add: splice1_def)

lemma splice1_length: "i < length xs \<Longrightarrow> length (splice1 i xs) = length xs - 1"
  by (simp add: splice1_def)

lemma rocketStep_rockets:
  "i < length (rockets w) \<Longrightarrow>
   rockets (rocketStep delta i w) =
     (if Rocket.progress (advanceRocket delta (rockets w ! i)) \<ge> 1
      then splice1 i (rockets w)
      else (rockets w)[i := advanceRocket delta (rockets w ! i)])"
  by (simp add: rocketStep_def Let_def Math_random_def advanceRocket_def splice1_update)

lemma rocketLoop_rockets:
  "i \<le> length (rockets w) \<Longrightarrow>
   rockets (rocketLoop delta i w) =
     filter (\<lambda>r. Rocket.progress r < 1) (map (advanceRocket delta) (take i (rockets w)))
     @ drop i (rockets w)"
proof (induction i arbitrary: w)
  case 0
  then show ?case by simp
next
  case (Suc i)
  let ?w = "rocketStep delta i w"
  have len: "i < length (rockets w)" using Suc.prems by simp
  have il: "i \<le> length (rockets ?w)"
    using len by (auto simp add: rocketStep_rockets splice1_length)
  have tk: "take i (rockets ?w) = take i (rockets w)"
    using len by (simp add: rocketStep_rockets splice1_take)
  have dr: "drop i (rockets ?w) =
      (if Rocket.progress (advanceRocket delta (rockets w ! i)) \<ge> 1 then []
       else [advanceRocket delta (rockets w ! i)]) @ drop (Suc i) (rockets w)"
    using len by (simp add: rocketStep_rockets splice1_drop drop_update_swap Cons_nth_drop_Suc[symmetric] )
  show ?case
    using Suc.IH[OF il] len
    by (simp add: tk dr take_Suc_conv_app_nth not_le)
qed

lemma collideStep_rockets:
  "rockets (collideStep e j w) =
     (if hits e (rockets w ! j) then splice1 j (rockets w) else rockets w)"
  by (simp add: collideStep_def Let_def Math_random_def hits_def setScore_kill_def)

lemma collideStep_score:
  "score (collideStep e j w) = (if hits e (rockets w ! j) then score w + 20 else score w)"
  by (simp add: collideStep_def Let_def Math_random_def hits_def setScore_kill_def)

lemma collideStep_gameState:
  "gameState (collideStep e j w) =
     (if hits e (rockets w ! j) \<and> score w + 20 \<ge> 1000 then WON else gameState w)"
  by (simp add: collideStep_def Let_def Math_random_def hits_def setScore_kill_def TARGET_SCORE_def)

lemma collideStep_explosions:
  "\<exists>cs. explosions (collideStep e j w) = explosions w @ cs \<and>
        list_all2 chain_of (filter (hits e) [rockets w ! j]) cs"
  by (simp add: collideStep_def Let_def Math_random_def hits_def setScore_kill_def
      chain_of_def fresh_explosion_def)

lemma collideStep_frame:
  "interceptors (collideStep e j w) = interceptors w"
  "cities (collideStep e j w) = cities w"
  "towers (collideStep e j w) = towers w"
  "spawnTimer (collideStep e j w) = spawnTimer w"
  "lastTime (collideStep e j w) = lastTime w"
  "dimensions (collideStep e j w) = dimensions w"
  by (simp_all add: collideStep_def Let_def Math_random_def setScore_kill_def)

lemma collideStep_bound:
  "j < length (rockets w) \<Longrightarrow> j \<le> length (rockets (collideStep e j w))"
  by (auto simp add: collideStep_rockets splice1_length)

lemma collideStep_take:
  "j < length (rockets w) \<Longrightarrow> take j (rockets (collideStep e j w)) = take j (rockets w)"
  by (simp add: collideStep_rockets splice1_take)

lemma collideStep_drop:
  "j < length (rockets w) \<Longrightarrow> drop j (rockets (collideStep e j w)) =
     filter (\<lambda>r. \<not> hits e r) [rockets w ! j] @ drop (Suc j) (rockets w)"
  by (simp add: collideStep_rockets splice1_drop Cons_nth_drop_Suc)

lemma collideLoop_rockets:
  "j \<le> length (rockets w) \<Longrightarrow>
   rockets (collideLoop e j w) =
     filter (\<lambda>r. \<not> hits e r) (take j (rockets w)) @ drop j (rockets w)"
proof (induction j arbitrary: w)
  case 0
  then show ?case by simp
next
  case (Suc j)
  have len: "j < length (rockets w)" using Suc.prems by simp
  show ?case
    using Suc.IH[OF collideStep_bound[OF len]] len
    by (simp add: collideStep_take collideStep_drop take_Suc_conv_app_nth)
qed

lemma collideLoop_score:
  "j \<le> length (rockets w) \<Longrightarrow>
   score (collideLoop e j w) =
     score w + 20 * int (length (filter (hits e) (take j (rockets w))))"
proof (induction j arbitrary: w)
  case 0
  then show ?case by simp
next
  case (Suc j)
  have len: "j < length (rockets w)" using Suc.prems by simp
  show ?case
    using Suc.IH[OF collideStep_bound[OF len]] len
    by (simp add: collideStep_take collideStep_score take_Suc_conv_app_nth)
qed

lemma collideLoop_gameState:
  "j \<le> length (rockets w) \<Longrightarrow>
   gameState (collideLoop e j w) =
     (if filter (hits e) (take j (rockets w)) \<noteq> [] \<and> score (collideLoop e j w) \<ge> 1000
      then WON else gameState w)"
proof (induction j arbitrary: w)
  case 0
  then show ?case by simp
next
  case (Suc j)
  have len: "j < length (rockets w)" using Suc.prems by simp
  have le: "j \<le> length (rockets (collideStep e j w))" by (rule collideStep_bound[OF len])
  show ?case
    using Suc.IH[OF le] len collideLoop_score[OF le, of e]
    by (auto simp add: collideStep_take collideStep_score collideStep_gameState
        take_Suc_conv_app_nth)
qed

lemma collideLoop_explosions:
  "j \<le> length (rockets w) \<Longrightarrow>
   \<exists>cs. explosions (collideLoop e j w) = explosions w @ cs \<and>
        list_all2 chain_of (rev (filter (hits e) (take j (rockets w)))) cs"
proof (induction j arbitrary: w)
  case 0
  then show ?case by simp
next
  case (Suc j)
  have len: "j < length (rockets w)" using Suc.prems by simp
  have le: "j \<le> length (rockets (collideStep e j w))" by (rule collideStep_bound[OF len])
  obtain cs1 where cs1: "explosions (collideStep e j w) = explosions w @ cs1"
    "list_all2 chain_of (filter (hits e) [rockets w ! j]) cs1"
    using collideStep_explosions by blast
  obtain cs2 where cs2: "explosions (collideLoop e j (collideStep e j w)) =
       explosions (collideStep e j w) @ cs2"
    "list_all2 chain_of (rev (filter (hits e) (take j (rockets w)))) cs2"
    using Suc.IH[OF le] len by (auto simp add: collideStep_take)
  have "list_all2 chain_of (rev (filter (hits e) (take (Suc j) (rockets w)))) (cs1 @ cs2)"
  proof -
    have "list_all2 chain_of (filter (hits e) [rockets w ! j] @ rev (filter (hits e) (take j (rockets w))))
            (cs1 @ cs2)"
      using cs1(2) cs2(2) by (rule list_all2_appendI)
    then show ?thesis using len by (simp add: take_Suc_conv_app_nth split: if_splits)
  qed
  then show ?case using cs1(1) cs2(1) by auto
qed

lemma collideLoop_frame:
  "interceptors (collideLoop e j w) = interceptors w"
  "cities (collideLoop e j w) = cities w"
  "towers (collideLoop e j w) = towers w"
  "spawnTimer (collideLoop e j w) = spawnTimer w"
  "lastTime (collideLoop e j w) = lastTime w"
  "dimensions (collideLoop e j w) = dimensions w"
  by (induction j arbitrary: w; simp add: collideStep_frame)+

lemma live_explosions_snoc:
  "live_explosions delta (es @ [e]) =
     live_explosions delta es @ (case advanceExplosion delta e of None \<Rightarrow> [] | Some e' \<Rightarrow> [e'])"
  by (simp add: live_explosions_def map_filter_def split: option.splits)

lemma explosionStep_rockets:
  "rockets (explosionStep delta i w) =
     (case advanceExplosion delta (explosions w ! i) of
        None \<Rightarrow> rockets w
      | Some e \<Rightarrow> filter (\<lambda>r. \<not> hits e r) (rockets w))"
  by (simp add: explosionStep_def collideLoop_rockets split: option.splits)

lemma explosionStep_score:
  "score (explosionStep delta i w) =
     (case advanceExplosion delta (explosions w ! i) of
        None \<Rightarrow> score w
      | Some e \<Rightarrow> score w + 20 * int (length (filter (hits e) (rockets w))))"
  by (simp add: explosionStep_def collideLoop_score split: option.splits)

lemma explosionStep_gameState:
  "gameState (explosionStep delta i w) =
     (if score (explosionStep delta i w) \<noteq> score w \<and> score (explosionStep delta i w) \<ge> 1000
      then WON else gameState w)"
  by (auto simp add: explosionStep_def collideLoop_score collideLoop_gameState split: option.splits)

lemma explosionStep_frame:
  "interceptors (explosionStep delta i w) = interceptors w"
  "cities (explosionStep delta i w) = cities w"
  "towers (explosionStep delta i w) = towers w"
  "spawnTimer (explosionStep delta i w) = spawnTimer w"
  "lastTime (explosionStep delta i w) = lastTime w"
  "dimensions (explosionStep delta i w) = dimensions w"
  by (simp_all add: explosionStep_def collideLoop_frame split: option.splits)

lemma explosionStep_explosions:
  assumes "i < length (explosions w)"
  shows "\<exists>cs. explosions (explosionStep delta i w) =
           take i (explosions w)
           @ (case advanceExplosion delta (explosions w ! i) of None \<Rightarrow> [] | Some e \<Rightarrow> [e])
           @ drop (Suc i) (explosions w) @ cs \<and>
         list_all2 chain_of
           (case advanceExplosion delta (explosions w ! i) of
              None \<Rightarrow> [] | Some e \<Rightarrow> rev (filter (hits e) (rockets w))) cs"
proof (cases "advanceExplosion delta (explosions w ! i)")
  case None
  then show ?thesis by (simp add: explosionStep_def splice1_def)
next
  case (Some e)
  let ?w1 = "w\<lparr>explosions := (explosions w)[i := e]\<rparr>"
  obtain cs where cs: "explosions (collideLoop e (length (rockets ?w1)) ?w1) = explosions ?w1 @ cs"
     "list_all2 chain_of (rev (filter (hits e) (take (length (rockets ?w1)) (rockets ?w1)))) cs"
    using collideLoop_explosions[of "length (rockets ?w1)" ?w1 e] by auto
  have "(explosions w)[i := e] = take i (explosions w) @ [e] @ drop (Suc i) (explosions w)"
    using assms by (simp add: upd_conv_take_nth_drop)
  then show ?thesis using Some cs by (simp add: explosionStep_def)
qed

lemma mset_filter_split:
  "mset (filter P xs) + mset (filter Q (filter (\<lambda>a. \<not> P a) xs)) = mset (filter (\<lambda>a. P a \<or> Q a) xs)"
  by (rule multiset_eqI) auto

lemma explosionLoop_rockets:
  "i \<le> length (explosions w) \<Longrightarrow>
   rockets (explosionLoop delta i w) =
     filter (\<lambda>r. \<forall>e\<in>set (live_explosions delta (take i (explosions w))). \<not> hits e r) (rockets w)"
proof (induction i arbitrary: w)
  case 0
  then show ?case by (simp add: live_explosions_def map_filter_def)
next
  case (Suc i)
  have len: "i < length (explosions w)" using Suc.prems by simp
  obtain cs where cs: "explosions (explosionStep delta i w) =
           take i (explosions w)
           @ (case advanceExplosion delta (explosions w ! i) of None \<Rightarrow> [] | Some e \<Rightarrow> [e])
           @ drop (Suc i) (explosions w) @ cs"
    using explosionStep_explosions[OF len] by blast
  have tk: "take i (explosions (explosionStep delta i w)) = take i (explosions w)"
    using len by (simp add: cs)
  have le: "i \<le> length (explosions (explosionStep delta i w))"
    using len by (simp add: cs)
  show ?case
    using Suc.IH[OF le] len
    by (auto simp add: tk take_Suc_conv_app_nth live_explosions_snoc explosionStep_rockets
        split: option.splits intro!: filter_cong)
qed

lemma explosionStep_bound:
  assumes "i < length (explosions w)"
  shows "i \<le> length (explosions (explosionStep delta i w))"
    and "take i (explosions (explosionStep delta i w)) = take i (explosions w)"
proof -
  obtain cs where cs: "explosions (explosionStep delta i w) =
           take i (explosions w)
           @ (case advanceExplosion delta (explosions w ! i) of None \<Rightarrow> [] | Some e \<Rightarrow> [e])
           @ drop (Suc i) (explosions w) @ cs"
    using explosionStep_explosions[OF assms] by blast
  show "i \<le> length (explosions (explosionStep delta i w))"
    using assms by (simp add: cs)
  show "take i (explosions (explosionStep delta i w)) = take i (explosions w)"
    using assms by (simp add: cs)
qed

lemma explosionStep_score_length:
  "score (explosionStep delta i w) =
     score w + 20 * (int (length (rockets w)) - int (length (rockets (explosionStep delta i w))))"
proof (cases "advanceExplosion delta (explosions w ! i)")
  case None
  then show ?thesis by (simp add: explosionStep_score explosionStep_rockets)
next
  case (Some e)
  have "length (filter (hits e) (rockets w)) + length (filter (\<lambda>r. \<not> hits e r) (rockets w))
      = length (rockets w)"
    by (rule sum_length_filter_compl)
  then show ?thesis using Some by (simp add: explosionStep_score explosionStep_rockets)
qed

lemma explosionStep_rockets_length:
  "length (rockets (explosionStep delta i w)) \<le> length (rockets w)"
  by (simp add: explosionStep_rockets split: option.splits)

lemma explosionLoop_rockets_length:
  "length (rockets (explosionLoop delta i w)) \<le> length (rockets w)"
proof (induction i arbitrary: w)
  case 0
  then show ?case by simp
next
  case (Suc i)
  show ?case
    using Suc.IH[of "explosionStep delta i w"] explosionStep_rockets_length[of delta i w]
    by simp
qed

lemma explosionLoop_score:
  "score (explosionLoop delta i w) =
     score w + 20 * (int (length (rockets w)) - int (length (rockets (explosionLoop delta i w))))"
proof (induction i arbitrary: w)
  case 0
  then show ?case by simp
next
  case (Suc i)
  show ?case
    using Suc.IH[of "explosionStep delta i w"] explosionStep_score_length[of delta i w]
    by simp
qed

lemma explosionLoop_gameState:
  "gameState (explosionLoop delta i w) =
     (if score (explosionLoop delta i w) \<noteq> score w \<and> score (explosionLoop delta i w) \<ge> 1000
      then WON else gameState w)"
proof (induction i arbitrary: w)
  case 0
  then show ?case by simp
next
  case (Suc i)
  let ?w1 = "explosionStep delta i w"
  have s1: "score w \<le> score ?w1"
    using explosionStep_score_length[of delta i w] explosionStep_rockets_length[of delta i w]
    by simp
  have s2: "score ?w1 \<le> score (explosionLoop delta i ?w1)"
    using explosionLoop_score[of delta i ?w1] explosionLoop_rockets_length[of delta i ?w1]
    by simp
  show ?case
    using Suc.IH[of ?w1] explosionStep_gameState[of delta i w] s1 s2
    by auto
qed

lemma explosionLoop_frame:
  "interceptors (explosionLoop delta i w) = interceptors w"
  "cities (explosionLoop delta i w) = cities w"
  "towers (explosionLoop delta i w) = towers w"
  "spawnTimer (explosionLoop delta i w) = spawnTimer w"
  "lastTime (explosionLoop delta i w) = lastTime w"
  "dimensions (explosionLoop delta i w) = dimensions w"
  by (induction i arbitrary: w; simp add: explosionStep_frame)+

lemma chains_for_append:
  assumes "list_all2 chain_of ks1 cs1" and "chains_for ks2 cs2"
    and "mset ks = mset ks1 + mset ks2"
  shows "chains_for ks (cs1 @ cs2)"
proof -
  obtain ks2' where k2: "mset ks2' = mset ks2" "list_all2 chain_of ks2' cs2"
    using assms(2) by (auto simp: chains_for_def)
  have "list_all2 chain_of (ks1 @ ks2') (cs1 @ cs2)"
    using assms(1) k2(2) by (rule list_all2_appendI)
  moreover have "mset (ks1 @ ks2') = mset ks"
    using k2(1) assms(3) by simp
  ultimately show ?thesis unfolding chains_for_def by blast
qed

lemma explosionLoop_explosions:
  "i \<le> length (explosions w) \<Longrightarrow>
   \<exists>cs. explosions (explosionLoop delta i w) =
          live_explosions delta (take i (explosions w)) @ drop i (explosions w) @ cs \<and>
        chains_for (filter (\<lambda>r. \<exists>e\<in>set (live_explosions delta (take i (explosions w))). hits e r)
                      (rockets w)) cs"
proof (induction i arbitrary: w)
  case 0
  then show ?case
    by (simp add: live_explosions_def map_filter_def chains_for_def)
next
  case (Suc i)
  let ?w1 = "explosionStep delta i w"
  let ?es = "explosions w"
  let ?L = "live_explosions delta (take i ?es)"
  have len: "i < length ?es" using Suc.prems by simp
  note b = explosionStep_bound[OF len, of delta]
  obtain cs1 where cs1: "explosions ?w1 =
           take i ?es
           @ (case advanceExplosion delta (?es ! i) of None \<Rightarrow> [] | Some e \<Rightarrow> [e])
           @ drop (Suc i) ?es @ cs1"
     and ch1: "list_all2 chain_of
           (case advanceExplosion delta (?es ! i) of
              None \<Rightarrow> [] | Some e \<Rightarrow> rev (filter (hits e) (rockets w))) cs1"
    using explosionStep_explosions[OF len] by blast
  obtain cs2 where cs2: "explosions (explosionLoop delta i ?w1) =
          ?L @ drop i (explosions ?w1) @ cs2"
     and ch2: "chains_for (filter (\<lambda>r. \<exists>e\<in>set ?L. hits e r) (rockets ?w1)) cs2"
    using Suc.IH[OF b(1)] by (auto simp add: b(2))
  have dr: "drop i (explosions ?w1) =
      (case advanceExplosion delta (?es ! i) of None \<Rightarrow> [] | Some e \<Rightarrow> [e])
           @ drop (Suc i) ?es @ cs1"
    using len by (simp add: cs1)
  have lv: "live_explosions delta (take (Suc i) ?es) =
      ?L @ (case advanceExplosion delta (?es ! i) of None \<Rightarrow> [] | Some e \<Rightarrow> [e])"
    using len by (simp add: take_Suc_conv_app_nth live_explosions_snoc)
  have eq: "explosions (explosionLoop delta (Suc i) w) =
      live_explosions delta (take (Suc i) ?es) @ drop (Suc i) ?es @ (cs1 @ cs2)"
    by (simp add: cs2 dr lv)
  have "chains_for (filter (\<lambda>r. \<exists>e\<in>set (live_explosions delta (take (Suc i) ?es)). hits e r)
                      (rockets w)) (cs1 @ cs2)"
  proof (cases "advanceExplosion delta (?es ! i)")
    case None
    then show ?thesis using ch1 ch2 by (simp add: lv explosionStep_rockets)
  next
    case (Some e)
    have m: "mset (filter (\<lambda>r. \<exists>e\<in>set (live_explosions delta (take (Suc i) ?es)). hits e r)
                      (rockets w)) =
        mset (rev (filter (hits e) (rockets w))) +
        mset (filter (\<lambda>r. \<exists>e\<in>set ?L. hits e r) (filter (\<lambda>r. \<not> hits e r) (rockets w)))"
      using mset_filter_split[where P = "hits e" and Q = "\<lambda>r. \<exists>e\<in>set ?L. hits e r" and xs = "rockets w"]
      by (simp add: lv Some bex_Un disj_commute)
    show ?thesis
      using chains_for_append[OF _ _ m] ch1 ch2 Some
      by (simp add: explosionStep_rockets)
  qed
  then show ?case using eq by blast
qed

lemma at_target_kill [simp]:
  "at_target r (c\<lparr>City.alive := False\<rparr>) = at_target r c"
  "at_target r (t\<lparr>Tower.alive := False\<rparr>) = at_target r t"
  by (simp_all add: at_target_def)

lemma rocketStep_towers:
  "towers (rocketStep delta i w) =
     (if arrived delta (rockets w ! i)
      then find_assign (at_target (rockets w ! i)) (\<lambda>t. t\<lparr>Tower.alive := False\<rparr>) (towers w)
      else towers w)"
  by (simp add: rocketStep_def Let_def Math_random_def arrived_def advanceRocket_def
      at_target_def[abs_def])

lemma rocketStep_cities:
  "cities (rocketStep delta i w) =
     (if arrived delta (rockets w ! i)
      then find_assign (at_target (rockets w ! i)) (\<lambda>c. c\<lparr>City.alive := False\<rparr>) (cities w)
      else cities w)"
  by (simp add: rocketStep_def Let_def Math_random_def arrived_def advanceRocket_def
      at_target_def[abs_def])

lemma rocketStep_gameState:
  "gameState (rocketStep delta i w) =
     (if arrived delta (rockets w ! i) \<and>
         list_all (\<lambda>t. \<not> Tower.alive t) (towers (rocketStep delta i w))
      then LOST else gameState w)"
  by (simp add: rocketStep_def Let_def Math_random_def arrived_def advanceRocket_def)

lemma rocketStep_explosions:
  "\<exists>ns. explosions (rocketStep delta i w) = explosions w @ ns \<and>
        list_all2 impact_of (filter (arrived delta) [rockets w ! i]) ns"
  by (simp add: rocketStep_def Let_def Math_random_def arrived_def advanceRocket_def
      impact_of_def fresh_explosion_def)

lemma rocketStep_frame:
  "interceptors (rocketStep delta i w) = interceptors w"
  "score (rocketStep delta i w) = score w"
  "spawnTimer (rocketStep delta i w) = spawnTimer w"
  "lastTime (rocketStep delta i w) = lastTime w"
  "dimensions (rocketStep delta i w) = dimensions w"
  by (simp_all add: rocketStep_def Let_def Math_random_def)

lemma rocketStep_bound:
  assumes "i < length (rockets w)"
  shows "i \<le> length (rockets (rocketStep delta i w))"
    and "take i (rockets (rocketStep delta i w)) = take i (rockets w)"
  using assms by (auto simp add: rocketStep_rockets splice1_length splice1_take)

lemma rocketLoop_frame:
  "interceptors (rocketLoop delta i w) = interceptors w"
  "score (rocketLoop delta i w) = score w"
  "spawnTimer (rocketLoop delta i w) = spawnTimer w"
  "lastTime (rocketLoop delta i w) = lastTime w"
  "dimensions (rocketLoop delta i w) = dimensions w"
  by (induction i arbitrary: w; simp add: rocketStep_frame)+

lemma rocketLoop_explosions:
  "i \<le> length (rockets w) \<Longrightarrow>
   \<exists>ns. explosions (rocketLoop delta i w) = explosions w @ ns \<and>
        list_all2 impact_of (rev (filter (arrived delta) (take i (rockets w)))) ns"
proof (induction i arbitrary: w)
  case 0
  then show ?case by simp
next
  case (Suc i)
  let ?w1 = "rocketStep delta i w"
  have len: "i < length (rockets w)" using Suc.prems by simp
  note b = rocketStep_bound[OF len, of delta]
  obtain ns1 where ns1: "explosions ?w1 = explosions w @ ns1"
    "list_all2 impact_of (filter (arrived delta) [rockets w ! i]) ns1"
    using rocketStep_explosions by blast
  obtain ns2 where ns2: "explosions (rocketLoop delta i ?w1) = explosions ?w1 @ ns2"
    "list_all2 impact_of (rev (filter (arrived delta) (take i (rockets w)))) ns2"
    using Suc.IH[OF b(1)] by (auto simp add: b(2))
  have "list_all2 impact_of (filter (arrived delta) [rockets w ! i]
          @ rev (filter (arrived delta) (take i (rockets w)))) (ns1 @ ns2)"
    using ns1(2) ns2(2) by (rule list_all2_appendI)
  then have "list_all2 impact_of (rev (filter (arrived delta) (take (Suc i) (rockets w))))
      (ns1 @ ns2)"
    using len by (simp add: take_Suc_conv_app_nth split: if_splits)
  then show ?case using ns1(1) ns2(1) by auto
qed

text \<open>Installations: struck ones stay struck.\<close>

lemma find_find_assign_same:
  assumes "\<And>a. p (f a) = p a"
  shows "find p (find_assign p f xs) = map_option f (find p xs)"
  using assms by (induction xs) auto

lemma find_find_assign_other:
  assumes "\<And>a. q (f a) = q a" and "find q (find_assign p f xs) = Some b"
  shows "\<exists>a. find q xs = Some a \<and> (b = a \<or> b = f a)"
  using assms by (induction xs) (auto split: if_splits)

lemma tower_dead_at_struck:
  "tower_dead_at r (find_assign (at_target r) (\<lambda>t. t\<lparr>Tower.alive := False\<rparr>) ts)"
  by (auto simp add: tower_dead_at_def find_find_assign_same)

lemma city_dead_at_struck:
  "city_dead_at r (find_assign (at_target r) (\<lambda>t. t\<lparr>City.alive := False\<rparr>) ts)"
  by (auto simp add: city_dead_at_def find_find_assign_same)

lemma tower_dead_at_kept:
  assumes "tower_dead_at r ts"
  shows "tower_dead_at r (find_assign (at_target r') (\<lambda>t. t\<lparr>Tower.alive := False\<rparr>) ts)"
  unfolding tower_dead_at_def
proof (intro allI impI)
  fix t
  assume "find (at_target r) (find_assign (at_target r') (\<lambda>t. t\<lparr>Tower.alive := False\<rparr>) ts) = Some t"
  then obtain a where "find (at_target r) ts = Some a" "t = a \<or> t = a\<lparr>Tower.alive := False\<rparr>"
    using find_find_assign_other[where q = "at_target r" and f = "\<lambda>t. t\<lparr>Tower.alive := False\<rparr>"]
    by (metis at_target_kill(2))
  then show "\<not> Tower.alive t" using assms by (auto simp: tower_dead_at_def)
qed

lemma city_dead_at_kept:
  assumes "city_dead_at r ts"
  shows "city_dead_at r (find_assign (at_target r') (\<lambda>t. t\<lparr>City.alive := False\<rparr>) ts)"
  unfolding city_dead_at_def
proof (intro allI impI)
  fix t
  assume "find (at_target r) (find_assign (at_target r') (\<lambda>t. t\<lparr>City.alive := False\<rparr>) ts) = Some t"
  then obtain a where "find (at_target r) ts = Some a" "t = a \<or> t = a\<lparr>City.alive := False\<rparr>"
    using find_find_assign_other[where q = "at_target r" and f = "\<lambda>t. t\<lparr>City.alive := False\<rparr>"]
    by (metis at_target_kill(1))
  then show "\<not> City.alive t" using assms by (auto simp: city_dead_at_def)
qed

lemma rocketLoop_tower_kept:
  "tower_dead_at r (towers w) \<Longrightarrow> tower_dead_at r (towers (rocketLoop delta i w))"
  by (induction i arbitrary: w) (simp_all add: rocketStep_towers tower_dead_at_kept)

lemma rocketLoop_city_kept:
  "city_dead_at r (cities w) \<Longrightarrow> city_dead_at r (cities (rocketLoop delta i w))"
  by (induction i arbitrary: w) (simp_all add: rocketStep_cities city_dead_at_kept)

lemma rocketLoop_struck:
  "i \<le> length (rockets w) \<Longrightarrow> r \<in> set (take i (rockets w)) \<Longrightarrow> arrived delta r \<Longrightarrow>
   tower_dead_at r (towers (rocketLoop delta i w)) \<and>
   city_dead_at r (cities (rocketLoop delta i w))"
proof (induction i arbitrary: w)
  case 0
  then show ?case by simp
next
  case (Suc i)
  let ?w1 = "rocketStep delta i w"
  have len: "i < length (rockets w)" using Suc.prems by simp
  note b = rocketStep_bound[OF len, of delta]
  from Suc.prems(2) len have "r \<in> set (take i (rockets w)) \<or> r = rockets w ! i"
    by (auto simp add: take_Suc_conv_app_nth)
  then show ?case
  proof
    assume "r \<in> set (take i (rockets w))"
    then show ?thesis using Suc.IH[OF b(1)] Suc.prems(3) by (simp add: b(2))
  next
    assume r: "r = rockets w ! i"
    have "tower_dead_at r (towers ?w1)" "city_dead_at r (cities ?w1)"
      using Suc.prems(3) r
      by (simp_all add: rocketStep_towers rocketStep_cities tower_dead_at_struck city_dead_at_struck)
    then show ?thesis
      by (simp add: rocketLoop_tower_kept rocketLoop_city_kept)
  qed
qed



lemma rocketLoop_gameState:
  "gameState (rocketLoop delta i w) = gameState w \<or> gameState (rocketLoop delta i w) = LOST"
proof (induction i arbitrary: w)
  case 0
  then show ?case by simp
next
  case (Suc i)
  show ?case
    using Suc.IH[of "rocketStep delta i w"] rocketStep_gameState[of delta i w]
    by (auto split: if_splits)
qed

lemma rocketLoop_quiet:
  "i \<le> length (rockets w) \<Longrightarrow> \<forall>r\<in>set (take i (rockets w)). \<not> arrived delta r \<Longrightarrow>
   gameState (rocketLoop delta i w) = gameState w \<and> towers (rocketLoop delta i w) = towers w
   \<and> cities (rocketLoop delta i w) = cities w"
proof (induction i arbitrary: w)
  case 0
  then show ?case by simp
next
  case (Suc i)
  have len: "i < length (rockets w)" using Suc.prems by simp
  note b = rocketStep_bound[OF len, of delta]
  have na: "\<not> arrived delta (rockets w ! i)"
    using Suc.prems(2) len by (simp add: take_Suc_conv_app_nth)
  show ?case
    using Suc.IH[OF b(1)] Suc.prems(2) len na
    by (simp add: b(2) take_Suc_conv_app_nth rocketStep_gameState rocketStep_towers rocketStep_cities)
qed

lemma interceptorStep_interceptors:
  "i < length (interceptors w) \<Longrightarrow>
   interceptors (interceptorStep delta i w) =
     (if detonated delta (interceptors w ! i)
      then splice1 i (interceptors w)
      else (interceptors w)[i := advanceInterceptor delta (interceptors w ! i)])"
  by (simp add: interceptorStep_def Let_def Math_random_def advanceInterceptor_def
      detonated_def splice1_update)

lemma interceptorStep_explosions:
  "\<exists>ns. explosions (interceptorStep delta i w) = explosions w @ ns \<and>
        list_all2 detonation_of (filter (detonated delta) [interceptors w ! i]) ns"
  by (simp add: interceptorStep_def Let_def Math_random_def detonated_def advanceInterceptor_def
      detonation_of_def fresh_explosion_def)

lemma interceptorStep_frame:
  "rockets (interceptorStep delta i w) = rockets w"
  "score (interceptorStep delta i w) = score w"
  "gameState (interceptorStep delta i w) = gameState w"
  "cities (interceptorStep delta i w) = cities w"
  "towers (interceptorStep delta i w) = towers w"
  "spawnTimer (interceptorStep delta i w) = spawnTimer w"
  "lastTime (interceptorStep delta i w) = lastTime w"
  "dimensions (interceptorStep delta i w) = dimensions w"
  by (simp_all add: interceptorStep_def Let_def Math_random_def)

lemma interceptorStep_bound:
  assumes "i < length (interceptors w)"
  shows "i \<le> length (interceptors (interceptorStep delta i w))"
    and "take i (interceptors (interceptorStep delta i w)) = take i (interceptors w)"
    and "drop i (interceptors (interceptorStep delta i w)) =
      (if detonated delta (interceptors w ! i) then []
       else [advanceInterceptor delta (interceptors w ! i)]) @ drop (Suc i) (interceptors w)"
  using assms
  by (auto simp add: interceptorStep_interceptors splice1_length splice1_take splice1_drop
      drop_update_swap Cons_nth_drop_Suc[symmetric])

lemma interceptorLoop_frame:
  "rockets (interceptorLoop delta i w) = rockets w"
  "score (interceptorLoop delta i w) = score w"
  "gameState (interceptorLoop delta i w) = gameState w"
  "cities (interceptorLoop delta i w) = cities w"
  "towers (interceptorLoop delta i w) = towers w"
  "spawnTimer (interceptorLoop delta i w) = spawnTimer w"
  "lastTime (interceptorLoop delta i w) = lastTime w"
  "dimensions (interceptorLoop delta i w) = dimensions w"
  by (induction i arbitrary: w; simp add: interceptorStep_frame)+


lemma interceptorLoop_explosions:
  "i \<le> length (interceptors w) \<Longrightarrow>
   \<exists>ns. explosions (interceptorLoop delta i w) = explosions w @ ns \<and>
        list_all2 detonation_of (rev (filter (detonated delta) (take i (interceptors w)))) ns"
proof (induction i arbitrary: w)
  case 0
  then show ?case by simp
next
  case (Suc i)
  let ?w1 = "interceptorStep delta i w"
  have len: "i < length (interceptors w)" using Suc.prems by simp
  note b = interceptorStep_bound[OF len, of delta]
  obtain ns1 where ns1: "explosions ?w1 = explosions w @ ns1"
    "list_all2 detonation_of (filter (detonated delta) [interceptors w ! i]) ns1"
    using interceptorStep_explosions by blast
  obtain ns2 where ns2: "explosions (interceptorLoop delta i ?w1) = explosions ?w1 @ ns2"
    "list_all2 detonation_of (rev (filter (detonated delta) (take i (interceptors w)))) ns2"
    using Suc.IH[OF b(1)] by (auto simp add: b(2))
  have "list_all2 detonation_of (filter (detonated delta) [interceptors w ! i]
          @ rev (filter (detonated delta) (take i (interceptors w)))) (ns1 @ ns2)"
    using ns1(2) ns2(2) by (rule list_all2_appendI)
  then have "list_all2 detonation_of
      (rev (filter (detonated delta) (take (Suc i) (interceptors w)))) (ns1 @ ns2)"
    using len by (simp add: take_Suc_conv_app_nth split: if_splits)
  then show ?case using ns1(1) ns2(1) by auto
qed

text \<open>Spawning.\<close>

lemma Math_random_range:
  "Math_random w = (r, w') \<Longrightarrow> 0 \<le> r \<and> r < 1"
  using Rep_rand01[of "entropy w 0"] by (auto simp add: Math_random_def)

text \<open>The index of the chosen target is within the list of targets.\<close>

lemma spawn_index_in_range:
  assumes "Math_random w = (r, w')" and "0 < k"
  shows "nat \<lfloor>r * real k\<rfloor> < k"
proof -
  have r: "0 \<le> r" "r < 1" using Math_random_range[OF assms(1)] by auto
  have "r * real k < real k" using r(2) assms(2) by simp
  then have "\<lfloor>r * real k\<rfloor> < int k" by (simp add: floor_less_iff)
  moreover have "0 \<le> \<lfloor>r * real k\<rfloor>" using r(1) by simp
  ultimately show ?thesis by linarith
qed

lemma spawnRockets_frame:
  "score (spawnRockets delta w) = score w"
  "gameState (spawnRockets delta w) = gameState w"
  "interceptors (spawnRockets delta w) = interceptors w"
  "explosions (spawnRockets delta w) = explosions w"
  "cities (spawnRockets delta w) = cities w"
  "towers (spawnRockets delta w) = towers w"
  "lastTime (spawnRockets delta w) = lastTime w"
  "dimensions (spawnRockets delta w) = dimensions w"
  by (simp_all add: spawnRockets_def Let_def Math_random_def)

lemma spawnRockets_rockets:
  "\<exists>ns. rockets (spawnRockets delta w) = rockets w @ ns \<and> length ns \<le> 1 \<and>
     (\<forall>n\<in>set ns. Rocket.progress n = 0 \<and>
        0.0015 \<le> Rocket.speed n)"
  using Rep_rand01[of "entropy w (Suc (Suc (Suc 0)))"]
  by (simp add: spawnRockets_def closure_score_def Let_def Math_random_def)

lemma distance_less_iff:
  "distance p q < r \<longleftrightarrow> 0 < r \<and> (x p - x q)\<^sup>2 + (y p - y q)\<^sup>2 < r\<^sup>2"
proof (cases "0 < r")
  case True
  then show ?thesis
    unfolding distance_def
    by (metis real_sqrt_less_iff real_sqrt_abs abs_of_pos)
next
  case False
  have "0 \<le> distance p q" by (simp add: distance_def)
  then show ?thesis using False by auto
qed

lemma updateExplosions_rockets:
  "rockets (updateExplosions delta w) =
     filter (\<lambda>r. \<forall>e\<in>set (live_explosions delta (explosions w)). \<not> hits e r) (rockets w)"
  by (simp add: updateExplosions_def explosionLoop_rockets)

lemma updateExplosions_score:
  "score (updateExplosions delta w) =
     score w + 20 * int (length (filter
       (\<lambda>r. \<exists>e\<in>set (live_explosions delta (explosions w)). hits e r) (rockets w)))"
proof -
  let ?P = "\<lambda>r. \<exists>e\<in>set (live_explosions delta (explosions w)). hits e r"
  have "length (filter ?P (rockets w)) + length (filter (\<lambda>r. \<not> ?P r) (rockets w))
      = length (rockets w)"
    by (rule sum_length_filter_compl)
  then show ?thesis
    using explosionLoop_score[of delta "length (explosions w)" w]
    by (simp add: updateExplosions_def explosionLoop_rockets)
qed

lemma updateExplosions_gameState:
  "gameState (updateExplosions delta w) =
     (if score (updateExplosions delta w) \<noteq> score w \<and> score (updateExplosions delta w) \<ge> 1000
      then WON else gameState w)"
  by (simp add: updateExplosions_def explosionLoop_gameState)

lemma updateExplosions_explosions:
  "\<exists>cs. explosions (updateExplosions delta w) = live_explosions delta (explosions w) @ cs \<and>
     chains_for (filter (\<lambda>r. \<exists>e\<in>set (live_explosions delta (explosions w)). hits e r)
        (rockets w)) cs"
  using explosionLoop_explosions[of "length (explosions w)" w delta]
  by (simp add: updateExplosions_def)

lemma hits_iff:
  "hits e r \<longleftrightarrow> 0 < radius e \<and>
     (x (rocketPos r) - x e)\<^sup>2 + (y (rocketPos r) - y e)\<^sup>2 < (radius e)\<^sup>2"
  by (simp add: hits_def distance_less_iff)

lemma collideStep_hits:
  "collideStep expl j w =
     (if hits expl (rockets w ! j) then
        (case Math_random (setScore_kill (w\<lparr>rockets := splice1 j (rockets w)\<rparr>)) of (r, w3) \<Rightarrow>
           w3\<lparr>explosions := explosions w3 @
                [\<lparr>x = x (rocketPos (rockets w ! j)), y = y (rocketPos (rockets w ! j)),
                  id' = Chain_id r, radius = 0, maxRadius = 40, expanding = True, life = 1\<rparr>]\<rparr>)
      else w)"
  by (simp add: collideStep_def hits_def Let_def)

lemma hits_eval:
  "hits e r \<longleftrightarrow> 0 < radius e \<and>
     (x (rocketPos r) - x e) * (x (rocketPos r) - x e)
       + (y (rocketPos r) - y e) * (y (rocketPos r) - y e) < radius e * radius e"
  by (simp add: hits_iff power2_eq_square)

lemmas step_defs = update_def spawnRockets_def closure_score_def updateRockets_def updateInterceptors_def
  updateExplosions_def rocketStep_def interceptorStep_def explosionStep_def collideStep_hits
  hits_eval advanceExplosion_def setScore_kill_def rocketPos_def Math_random_def splice1_def
  TARGET_SCORE_def Let_def


lemma update_playing:
  "gameState w = PLAYING \<Longrightarrow>
   update dt w = updateExplosions (min dt 100) (updateInterceptors (min dt 100)
     (updateRockets (min dt 100) (spawnRockets (min dt 100) w)))"
  by (simp add: update_def Let_def)

lemma updateInterceptors_frame:
  "rockets (updateInterceptors delta w) = rockets w"
  "score (updateInterceptors delta w) = score w"
  "gameState (updateInterceptors delta w) = gameState w"
  "cities (updateInterceptors delta w) = cities w"
  "towers (updateInterceptors delta w) = towers w"
  "spawnTimer (updateInterceptors delta w) = spawnTimer w"
  "lastTime (updateInterceptors delta w) = lastTime w"
  "dimensions (updateInterceptors delta w) = dimensions w"
  by (simp_all add: updateInterceptors_def interceptorLoop_frame)

lemma updateExplosions_frame:
  "interceptors (updateExplosions delta w) = interceptors w"
  "cities (updateExplosions delta w) = cities w"
  "towers (updateExplosions delta w) = towers w"
  "spawnTimer (updateExplosions delta w) = spawnTimer w"
  "lastTime (updateExplosions delta w) = lastTime w"
  "dimensions (updateExplosions delta w) = dimensions w"
  by (simp_all add: updateExplosions_def explosionLoop_frame)

lemma updateRockets_frame:
  "interceptors (updateRockets delta w) = interceptors w"
  "score (updateRockets delta w) = score w"
  "spawnTimer (updateRockets delta w) = spawnTimer w"
  "lastTime (updateRockets delta w) = lastTime w"
  "dimensions (updateRockets delta w) = dimensions w"
  by (simp_all add: updateRockets_def rocketLoop_frame)

lemma updateRockets_gameState:
  "gameState (updateRockets delta w) = gameState w \<or> gameState (updateRockets delta w) = LOST"
  by (simp add: updateRockets_def rocketLoop_gameState)

lemma updateExplosions_score_length:
  "score (updateExplosions delta w) =
     score w + 20 * (int (length (rockets w)) - int (length (rockets (updateExplosions delta w))))"
  by (simp add: updateExplosions_def explosionLoop_score)

lemma updateExplosions_rockets_length:
  "length (rockets (updateExplosions delta w)) \<le> length (rockets w)"
  by (simp add: updateExplosions_def explosionLoop_rockets_length)

lemma chains_for_length:
  "chains_for ks cs \<Longrightarrow> length cs = length ks"
  by (metis chains_for_def list_all2_lengthD size_mset)

lemma chains_for_fresh:
  assumes "chains_for ks cs" and "c \<in> set cs"
  shows "\<exists>r\<in>set ks. chain_of r c"
proof -
  obtain ks' where k: "mset ks' = mset ks" "list_all2 chain_of ks' cs"
    using assms(1) by (auto simp: chains_for_def)
  obtain r where "r \<in> set ks'" "chain_of r c"
    using k(2) assms(2) by (metis in_set_conv_nth list_all2_conv_all_nth)
  then show ?thesis using k(1) by (metis mset_eq_setD)
qed

lemma chains_for_each:
  assumes "chains_for ks cs" and "r \<in> set ks"
  shows "\<exists>c\<in>set cs. chain_of r c"
proof -
  obtain ks' where k: "mset ks' = mset ks" "list_all2 chain_of ks' cs"
    using assms(1) by (auto simp: chains_for_def)
  have "r \<in> set ks'" using k(1) assms(2) by (metis mset_eq_setD)
  then show ?thesis using k(2) by (metis in_set_conv_nth list_all2_conv_all_nth)
qed

lemma updateRockets_rockets:
  "rockets (updateRockets delta w) =
     filter (\<lambda>r. Rocket.progress r < 1) (map (advanceRocket delta) (rockets w))"
  using rocketLoop_rockets[of "length (rockets w)" w delta]
  by (simp add: updateRockets_def)

lemma updateRockets_explosions:
  "\<exists>ns. explosions (updateRockets delta w) = explosions w @ ns \<and>
        list_all2 impact_of (rev (filter (arrived delta) (rockets w))) ns"
  using rocketLoop_explosions[of "length (rockets w)" w delta]
  by (simp add: updateRockets_def)

lemma updateRockets_struck:
  "r \<in> set (rockets w) \<Longrightarrow> arrived delta r \<Longrightarrow>
   tower_dead_at r (towers (updateRockets delta w)) \<and>
   city_dead_at r (cities (updateRockets delta w))"
  using rocketLoop_struck[of "length (rockets w)" w r delta]
  by (simp add: updateRockets_def)

lemma fireOne_interceptors:
  "\<exists>n. interceptors (fireOne tower px py w) = interceptors w @ [n] \<and> burst_shot tower px py n"
  using Rep_rand01[of "entropy w 0"] Rep_rand01[of "entropy w (Suc 0)"]
    Rep_rand01[of "entropy w (Suc (Suc (Suc 0)))"]
  by (simp add: fireOne_def Math_random_def Let_def burst_shot_def abs_le_iff)

lemma fireOne_frame:
  "gameState (fireOne tower px py w) = gameState w"
  "score (fireOne tower px py w) = score w"
  "rockets (fireOne tower px py w) = rockets w"
  "explosions (fireOne tower px py w) = explosions w"
  "cities (fireOne tower px py w) = cities w"
  "towers (fireOne tower px py w) = towers w"
  "lastTime (fireOne tower px py w) = lastTime w"
  "spawnTimer (fireOne tower px py w) = spawnTimer w"
  "dimensions (fireOne tower px py w) = dimensions w"
  by (simp_all add: fireOne_def Math_random_def Let_def)

lemma fireBurst_frame:
  "gameState (fireBurst k tower px py w) = gameState w"
  "score (fireBurst k tower px py w) = score w"
  "rockets (fireBurst k tower px py w) = rockets w"
  "explosions (fireBurst k tower px py w) = explosions w"
  "cities (fireBurst k tower px py w) = cities w"
  "towers (fireBurst k tower px py w) = towers w"
  "lastTime (fireBurst k tower px py w) = lastTime w"
  "spawnTimer (fireBurst k tower px py w) = spawnTimer w"
  "dimensions (fireBurst k tower px py w) = dimensions w"
  by (induction k arbitrary: w; simp add: fireOne_frame)+

lemma fireBurst_interceptors:
  "\<exists>ns. interceptors (fireBurst k tower px py w) = interceptors w @ ns \<and> length ns = k \<and>
     (\<forall>n\<in>set ns. burst_shot tower px py n)"
proof (induction k arbitrary: w)
  case 0
  then show ?case by simp
next
  case (Suc k)
  obtain n where n: "interceptors (fireOne tower px py w) = interceptors w @ [n]"
    "burst_shot tower px py n"
    using fireOne_interceptors by blast
  obtain ns where ns: "interceptors (fireBurst k tower px py (fireOne tower px py w)) =
      interceptors (fireOne tower px py w) @ ns" "length ns = k"
      "\<forall>n\<in>set ns. burst_shot tower px py n"
    using Suc.IH by blast
  have "interceptors (fireBurst (Suc k) tower px py w) = interceptors w @ (n # ns)"
    using n(1) ns(1) by simp
  moreover have "length (n # ns) = Suc k" using ns(2) by simp
  moreover have "\<forall>m\<in>set (n # ns). burst_shot tower px py m" using n(2) ns(3) by simp
  ultimately show ?case by blast
qed

lemma sort_key_Nil_iff:
  "sort_key f xs = [] \<longleftrightarrow> xs = []"
  by (metis length_sort length_0_conv)

lemma hd_sort_key_least:
  assumes "xs \<noteq> []"
  shows "hd (sort_key f xs) \<in> set xs \<and> (\<forall>a\<in>set xs. f (hd (sort_key f xs)) \<le> f a)"
proof -
  let ?ys = "sort_key f xs"
  have ne: "?ys \<noteq> []" using assms by (metis length_sort list.size(3) length_0_conv)
  then obtain b bs where ys: "?ys = b # bs" by (cases ?ys) auto
  have "sorted (map f ?ys)" by (rule sorted_sort_key)
  then have "\<forall>a\<in>set ?ys. f b \<le> f a" by (auto simp add: ys)
  moreover have "set ?ys = set xs" by simp
  moreover have "b \<in> set ?ys" by (simp add: ys)
  ultimately show ?thesis by (metis list.sel(1) ys)
qed


lemma update_rockets:
  assumes "gameState w = PLAYING"
  shows "rockets (update dt w) =
     filter (\<lambda>r. \<forall>e\<in>set (live_explosions (min dt 100) (explosions
                 (updateInterceptors (min dt 100) (updateRockets (min dt 100)
                    (spawnRockets (min dt 100) w))))). \<not> hits e r)
       (filter (\<lambda>r. Rocket.progress r < 1)
          (map (advanceRocket (min dt 100)) (rockets (spawnRockets (min dt 100) w))))"
  by (simp add: update_playing[OF assms] updateExplosions_rockets updateInterceptors_frame
      updateRockets_rockets)




lemma drawRockets_state:
  "snd (drawRockets rs w) = w\<lparr>entropy := (\<lambda>n. entropy w (n + length rs))\<rparr>"
proof (induction rs arbitrary: w)
  case Nil
  then show ?case by simp
next
  case (Cons r rs)
  show ?case
    by (simp add: Math_random_def split_beta Cons.IH)
qed

lemma draw_state:
  "snd (draw surface w) =
     (if surface then w\<lparr>entropy := (\<lambda>n. entropy w (n + length (rockets w)))\<rparr> else w)"
  by (simp add: draw_def Let_def split_beta drawRockets_state)




lemma updateInterceptors_explosions:
  "\<exists>ns. explosions (updateInterceptors delta w) = explosions w @ ns \<and>
        list_all2 detonation_of (rev (filter (detonated delta) (interceptors w))) ns"
  using interceptorLoop_explosions[of "length (interceptors w)" w delta]
  by (simp add: updateInterceptors_def)

lemma update_explosions:
  assumes "gameState w = PLAYING"
  shows "\<exists>ns cs. explosions (update dt w) =
      live_explosions (min dt 100) (explosions w @ ns) @ cs \<and>
      (\<forall>c\<in>set cs. fresh_explosion 40 (x c) (y c) c)"
proof -
  let ?d = "min dt 100"
  let ?w1 = "spawnRockets ?d w"
  let ?w2 = "updateRockets ?d ?w1"
  let ?w3 = "updateInterceptors ?d ?w2"
  obtain n2 where n2: "explosions ?w2 = explosions w @ n2"
    using updateRockets_explosions[of ?d ?w1] by (auto simp add: spawnRockets_frame)
  obtain n3 where n3: "explosions ?w3 = explosions ?w2 @ n3"
    using updateInterceptors_explosions[of ?d ?w2] by blast
  obtain cs where cs: "explosions (updateExplosions ?d ?w3) =
      live_explosions ?d (explosions ?w3) @ cs"
      "chains_for (filter (\<lambda>r. \<exists>e\<in>set (live_explosions ?d (explosions ?w3)). hits e r)
        (rockets ?w3)) cs"
    using updateExplosions_explosions[of ?d ?w3] by blast
  have "\<forall>c\<in>set cs. fresh_explosion 40 (x c) (y c) c"
    using chains_for_fresh[OF cs(2)] by (auto simp add: chain_of_def fresh_explosion_def)
  moreover have "explosions (update dt w) = live_explosions ?d (explosions w @ (n2 @ n3)) @ cs"
    using cs(1) by (simp add: update_playing[OF assms] n2 n3)
  ultimately show ?thesis by blast
qed

lemma hits_needs_radius:
  "hits e r \<Longrightarrow> 0 < radius e"
  by (simp add: hits_iff)

lemma drawRockets_cmds_cong:
  "\<forall>i<length rs. entropy w i = entropy w' i \<Longrightarrow>
   fst (drawRockets rs w) = fst (drawRockets rs w')"
proof (induction rs arbitrary: w w')
  case Nil
  then show ?case by simp
next
  case (Cons r rs)
  let ?w1 = "w\<lparr>entropy := (\<lambda>n. entropy w (Suc n))\<rparr>"
  let ?w1' = "w'\<lparr>entropy := (\<lambda>n. entropy w' (Suc n))\<rparr>"
  have "\<forall>i<length rs. entropy ?w1 i = entropy ?w1' i" using Cons.prems by auto
  then have "fst (drawRockets rs ?w1) = fst (drawRockets rs ?w1')" by (rule Cons.IH)
  moreover have "entropy w 0 = entropy w' 0" using Cons.prems by auto
  ultimately show ?case by (simp add: Math_random_def split_beta)
qed

lemma draw_cmds:
  "fst (draw surface w) =
     (if surface then
        drawGround (width (dimensions w)) (height (dimensions w))
        @ concat (map drawCity (cities w))
        @ concat (map drawTower (towers w))
        @ fst (drawRockets (rockets w) w)
        @ concat (map drawInterceptor (interceptors w))
        @ concat (map drawExplosion (explosions w))
      else [])"
  by (simp add: draw_def Let_def split_beta drawRockets_state)






lemma sqrt_less_square:
  "0 \<le> a \<Longrightarrow> 0 < r \<Longrightarrow> sqrt a < r \<longleftrightarrow> a < r * r"
  by (metis abs_of_pos power2_eq_square real_sqrt_abs real_sqrt_less_iff)

section \<open>The claims\<close>

text \<open>
  C5. The "begin" operation \<open>initGame\<close>, from whatever state it is invoked (so from
  START, WON or LOST, with any residue of the previous run), yields the phase PLAYING
  with score 0, no rockets, interceptors or explosions, the spawn timer at 0, five
  towers at the fractions 0.1, 0.3, 0.5, 0.7, 0.9 of the viewport width and six cities at
  the fractions 0.2, 0.4, 0.45, 0.55, 0.6, 0.8, all of them alive.
\<close>

theorem initGame_clean:
  "gameState (initGame now w) = PLAYING \<and>
   score (initGame now w) = 0 \<and>
   rockets (initGame now w) = [] \<and>
   interceptors (initGame now w) = [] \<and>
   explosions (initGame now w) = [] \<and>
   spawnTimer (initGame now w) = 0 \<and>
   map x (towers (initGame now w)) =
     map ((*) (width (dimensions w))) [0.1, 0.3, 0.5, 0.7, 0.9] \<and>
   map x (cities (initGame now w)) =
     map ((*) (width (dimensions w))) [0.2, 0.4, 0.45, 0.55, 0.6, 0.8] \<and>
   map y (towers (initGame now w)) = replicate 5 (height (dimensions w) - 50) \<and>
   map y (cities (initGame now w)) = replicate 6 (height (dimensions w) - 40) \<and>
   map Tower.alive (towers (initGame now w)) = replicate 5 True \<and>
   map City.alive (cities (initGame now w)) = replicate 6 True \<and>
   dimensions (initGame now w) = dimensions w"
  by (simp add: initGame_def towerPositions_def cityPositions_def Let_def numeral_eq_Suc)




text \<open>
  C2 (as amended). In a step from a PLAYING state the score grows by 20 for each rocket
  that an explosion destroys in it (the rockets that phase 4 removes), and the step ends
  in the phase WON exactly when it destroyed a rocket and the score it ends with is 1000
  or more. Nothing stops the kills of the step once the target is reached, so the final
  score is not bounded by 1000 plus 20.
\<close>

theorem won_at_target:
  assumes "gameState w = PLAYING"
  shows "score (update dt w) =
           score w + 20 * (int (length (rockets (updateRockets (min dt 100)
                                  (spawnRockets (min dt 100) w))))
                           - int (length (rockets (update dt w)))) \<and>
         length (rockets (update dt w))
           \<le> length (rockets (updateRockets (min dt 100) (spawnRockets (min dt 100) w))) \<and>
         (gameState (update dt w) = WON \<longleftrightarrow>
            score (update dt w) \<noteq> score w \<and> score (update dt w) \<ge> 1000)"
proof -
  let ?d = "min dt 100"
  let ?w1 = "spawnRockets ?d w"
  let ?w2 = "updateRockets ?d ?w1"
  let ?w3 = "updateInterceptors ?d ?w2"
  note u = update_playing[OF assms, of dt]
  have s3: "score ?w3 = score w" "rockets ?w3 = rockets ?w2"
    by (simp_all add: updateInterceptors_frame updateRockets_frame spawnRockets_frame)
  have g3: "gameState ?w3 \<noteq> WON"
    using updateRockets_gameState[of ?d ?w1] assms
    by (auto simp add: updateInterceptors_frame spawnRockets_frame)
  show ?thesis
    using updateExplosions_score_length[of ?d ?w3] updateExplosions_rockets_length[of ?d ?w3]
      updateExplosions_gameState[of ?d ?w3] g3
    by (simp add: u s3)
qed

theorem won_at_target_witness:
  "gameState triple_kill_world = PLAYING \<and>
   score triple_kill_world = 980 \<and>
   length (rockets (updateRockets (min 16.67 100) (spawnRockets (min 16.67 100) triple_kill_world))) = 3 \<and>
   length (rockets (update 16.67 triple_kill_world)) = 0 \<and>
   score (update 16.67 triple_kill_world) = 980 + 20 * (3 - 0) \<and>
   gameState (update 16.67 triple_kill_world) = WON"
proof -
  have p: "gameState triple_kill_world = PLAYING" by (simp add: triple_kill_world_def)
  have r2: "length (rockets (updateRockets (min 16.67 100)
               (spawnRockets (min 16.67 100) triple_kill_world))) = 3"
    by (simp add: triple_kill_world_def step_defs)
  have r4: "length (rockets (update 16.67 triple_kill_world)) = 0"
    by (simp add: triple_kill_world_def step_defs)
  have s: "score triple_kill_world = 980" by (simp add: triple_kill_world_def)
  show ?thesis
    using won_at_target[OF p, of "16.67"] r2 r4 s p by simp
qed

text \<open>
  C2 as stated fails: from the score 980, a step in which one explosion destroys three
  rockets ends with the score 1040, which is more than 20 above the target.
\<close>

theorem won_overshoot_counterexample:
  "gameState triple_kill_world = PLAYING \<and>
   score triple_kill_world = 980 \<and>
   gameState (update 16.67 triple_kill_world) = WON \<and>
   score (update 16.67 triple_kill_world) = 1040"
  by (simp add: triple_kill_world_def step_defs)

text \<open>
  C3. The interpolated position of a rocket is its origin plus \<open>progress\<close> times the
  way to its target. In the explosion phase of a step (\<open>updateExplosions\<close>), call an
  explosion live when it was in the collection at the start of the phase and is not
  removed by its own advance, and take its advanced radius. Exactly the rockets whose
  interpolated position has a distance to the centre of some live explosion that is
  smaller than this radius are removed; the score grows by 20 for each of them, once,
  however many explosions contain it; the collection of explosions becomes the live
  ones followed by one chain explosion for each removed rocket, at the rocket's
  interpolated position, with radius 0, maxRadius 40 and expanding. One explosion can
  destroy several rockets in the same step.
\<close>

theorem hazard_phase:
  fixes delta :: real and w :: World
  defines "px \<equiv> \<lambda>r. x r + (Rocket.targetX r - x r) * Rocket.progress r"
    and "py \<equiv> \<lambda>r. y r + (Rocket.targetY r - y r) * Rocket.progress r"
    and "live \<equiv> List.map_filter (advanceExplosion delta) (explosions w)"
  defines "caught \<equiv> \<lambda>r. list_ex (\<lambda>e. sqrt ((px r - x e)\<^sup>2 + (py r - y e)\<^sup>2) < radius e) live"
  shows "rockets (updateExplosions delta w) = filter (\<lambda>r. \<not> caught r) (rockets w) \<and>
   score (updateExplosions delta w) = score w + 20 * int (length (filter caught (rockets w))) \<and>
   (\<exists>cs. explosions (updateExplosions delta w) = live @ cs \<and>
      length cs = length (filter caught (rockets w)) \<and>
      (\<forall>r\<in>set (rockets w). caught r \<longrightarrow> (\<exists>c\<in>set cs. x c = px r \<and> y c = py r)) \<and>
      (\<forall>c\<in>set cs. radius c = 0 \<and> maxRadius c = 40 \<and> expanding c \<and>
         (\<exists>r\<in>set (rockets w). caught r \<and> x c = px r \<and> y c = py r))) \<and>
   (\<exists>(w'::World) d. length (explosions w') = 1 \<and>
      score (updateExplosions d w') = score w' + 40)"
proof (intro conjI)
  have H: "\<And>e r. hits e r \<longleftrightarrow> sqrt ((px r - x e)\<^sup>2 + (py r - y e)\<^sup>2) < radius e"
    by (simp add: hits_def distance_def rocketPos_def px_def py_def)
  have P: "\<And>r. x (rocketPos r) = px r" "\<And>r. y (rocketPos r) = py r"
    by (simp_all add: rocketPos_def px_def py_def)
  have L: "live = live_explosions delta (explosions w)"
    by (simp add: live_def live_explosions_def)
  have D: "caught = (\<lambda>r. \<exists>e\<in>set (live_explosions delta (explosions w)). hits e r)"
    by (simp add: caught_def L list_ex_iff H)
  show "rockets (updateExplosions delta w) = filter (\<lambda>r. \<not> caught r) (rockets w)"
    by (simp add: updateExplosions_rockets D)
  show "score (updateExplosions delta w) = score w + 20 * int (length (filter caught (rockets w)))"
    by (simp add: updateExplosions_score D)
  show "\<exists>cs. explosions (updateExplosions delta w) = live @ cs \<and>
      length cs = length (filter caught (rockets w)) \<and>
      (\<forall>r\<in>set (rockets w). caught r \<longrightarrow> (\<exists>c\<in>set cs. x c = px r \<and> y c = py r)) \<and>
      (\<forall>c\<in>set cs. radius c = 0 \<and> maxRadius c = 40 \<and> expanding c \<and>
         (\<exists>r\<in>set (rockets w). caught r \<and> x c = px r \<and> y c = py r))"
  proof -
    obtain cs where cs: "explosions (updateExplosions delta w) = live @ cs"
      "chains_for (filter caught (rockets w)) cs"
      using updateExplosions_explosions[of delta w] unfolding D L by blast
    have a: "length cs = length (filter caught (rockets w))"
      using cs(2) by (rule chains_for_length)
    have b: "\<forall>r\<in>set (rockets w). caught r \<longrightarrow> (\<exists>c\<in>set cs. x c = px r \<and> y c = py r)"
    proof (intro ballI impI)
      fix r assume "r \<in> set (rockets w)" "caught r"
      then have "r \<in> set (filter caught (rockets w))" by simp
      from chains_for_each[OF cs(2) this]
      show "\<exists>c\<in>set cs. x c = px r \<and> y c = py r"
        by (auto simp: chain_of_def fresh_explosion_def P)
    qed
    have c: "\<forall>c\<in>set cs. radius c = 0 \<and> maxRadius c = 40 \<and> expanding c \<and>
         (\<exists>r\<in>set (rockets w). caught r \<and> x c = px r \<and> y c = py r)"
    proof
      fix c assume "c \<in> set cs"
      from chains_for_fresh[OF cs(2) this]
      show "radius c = 0 \<and> maxRadius c = 40 \<and> expanding c \<and>
         (\<exists>r\<in>set (rockets w). caught r \<and> x c = px r \<and> y c = py r)"
        by (auto simp: chain_of_def fresh_explosion_def P)
    qed
    show ?thesis using cs(1) a b c by blast
  qed
  have ex: "length (explosions crossfire_world) = 1 \<and>
      score (updateExplosions 16.67 crossfire_world) = score crossfire_world + 40"
    by (simp add: crossfire_world_def step_defs)
  show "\<exists>(w'::World) d. length (explosions w') = 1 \<and>
      score (updateExplosions d w') = score w' + 40"
    by (rule exI [of _ crossfire_world], rule exI [of _ "16.67"]) (fact ex)
qed

theorem hazard_phase_witness:
  "map Rocket.progress (rockets crossfire_world) = [0.56, 0.3, 0.56] \<and>
   map (\<lambda>e. (x e, y e, radius e)) (explosions crossfire_world) = [(200, 300, 50.8)] \<and>
   rockets (updateExplosions 16.67 crossfire_world) = [rockets crossfire_world ! 1] \<and>
   score (updateExplosions 16.67 crossfire_world) = score crossfire_world + 40 \<and>
   map (\<lambda>e. (x e, y e, radius e, maxRadius e, expanding e))
     (explosions (updateExplosions 16.67 crossfire_world)) =
       [(200, 300, 50, 50, False), (200.4, 299.2, 0, 40, True), (220.8, 299.2, 0, 40, True)]"
proof -
  have d: "map Rocket.progress (rockets crossfire_world) = [0.56, 0.3, 0.56]"
    "map (\<lambda>e. (x e, y e, radius e)) (explosions crossfire_world) = [(200, 300, 50.8)]"
    by (simp_all add: crossfire_world_def)
  have e: "map (\<lambda>e. (x e, y e, radius e, maxRadius e, expanding e))
     (explosions (updateExplosions 16.67 crossfire_world)) =
       [(200, 300, 50, 50, False), (200.4, 299.2, 0, 40, True), (220.8, 299.2, 0, 40, True)]"
    by (simp add: crossfire_world_def step_defs)
  have "rockets (updateExplosions 16.67 crossfire_world) = [rockets crossfire_world ! 1] \<and>
     score (updateExplosions 16.67 crossfire_world) = score crossfire_world + 40"
    using hazard_phase [of "16.67" crossfire_world]
    by (simp add: crossfire_world_def map_filter_def advanceExplosion_def sqrt_less_square
        power2_eq_square)
  then show ?thesis using d e by simp
qed

text \<open>
  C4. In the rocket phase of a step (\<open>updateRockets\<close>) every rocket advances by its speed
  times \<open>delta / 16.67\<close>. A rocket whose progress is then 1 or more is removed from the
  collection, the others stay, in their order; for each removed rocket exactly one
  explosion is appended, at the rocket's target, with radius 0, maxRadius 40 and
  expanding; and afterwards the city found at the target coordinates and the tower
  found there (the first one in the collection with exactly these coordinates, when
  there is one) are not alive. At the end of the whole step, from a PLAYING state, the
  rocket is still gone and these installations are still dead.
\<close>

theorem impact_resolution:
  "rockets (updateRockets delta w) =
     filter (\<lambda>r. \<not> 1 \<le> Rocket.progress r) (map (advanceRocket delta) (rockets w)) \<and>
   (\<exists>ns. explosions (updateRockets delta w) = explosions w @ ns \<and>
      list_all2 (\<lambda>r e. x e = Rocket.targetX r \<and> y e = Rocket.targetY r \<and> radius e = 0 \<and>
                       maxRadius e = 40 \<and> expanding e)
        (rev (filter (\<lambda>r. 1 \<le> Rocket.progress (advanceRocket delta r)) (rockets w))) ns) \<and>
   (\<forall>r\<in>set (rockets w). 1 \<le> Rocket.progress (advanceRocket delta r) \<longrightarrow>
      (\<forall>c. find (\<lambda>c. x c = Rocket.targetX r \<and> y c = Rocket.targetY r)
              (cities (updateRockets delta w)) = Some c \<longrightarrow> \<not> City.alive c) \<and>
      (\<forall>t. find (\<lambda>t. x t = Rocket.targetX r \<and> y t = Rocket.targetY r)
              (towers (updateRockets delta w)) = Some t \<longrightarrow> \<not> Tower.alive t)) \<and>
   (gameState w = PLAYING \<longrightarrow>
      (\<forall>r\<in>set (rockets w). 1 \<le> Rocket.progress (advanceRocket (min dt 100) r) \<longrightarrow>
         advanceRocket (min dt 100) r \<notin> set (rockets (update dt w)) \<and>
         (\<forall>c. find (\<lambda>c. x c = Rocket.targetX r \<and> y c = Rocket.targetY r)
                 (cities (update dt w)) = Some c \<longrightarrow> \<not> City.alive c) \<and>
         (\<forall>t. find (\<lambda>t. x t = Rocket.targetX r \<and> y t = Rocket.targetY r)
                 (towers (update dt w)) = Some t \<longrightarrow> \<not> Tower.alive t)))"
proof (intro conjI)
  show "rockets (updateRockets delta w) =
     filter (\<lambda>r. \<not> 1 \<le> Rocket.progress r) (map (advanceRocket delta) (rockets w))"
    by (simp add: updateRockets_rockets not_le)
  obtain ns where ns: "explosions (updateRockets delta w) = explosions w @ ns"
    "list_all2 impact_of (rev (filter (arrived delta) (rockets w))) ns"
    using updateRockets_explosions by blast
  have "list_all2 (\<lambda>r e. x e = Rocket.targetX r \<and> y e = Rocket.targetY r \<and> radius e = 0 \<and>
                       maxRadius e = 40 \<and> expanding e)
        (rev (filter (arrived delta) (rockets w))) ns"
    using ns(2) by (rule list_all2_mono) (simp add: impact_of_def fresh_explosion_def)
  then show "\<exists>ns. explosions (updateRockets delta w) = explosions w @ ns \<and>
      list_all2 (\<lambda>r e. x e = Rocket.targetX r \<and> y e = Rocket.targetY r \<and> radius e = 0 \<and>
                       maxRadius e = 40 \<and> expanding e)
        (rev (filter (\<lambda>r. 1 \<le> Rocket.progress (advanceRocket delta r)) (rockets w))) ns"
    using ns(1) by (auto simp add: arrived_def[abs_def])
  show "\<forall>r\<in>set (rockets w). 1 \<le> Rocket.progress (advanceRocket delta r) \<longrightarrow>
      (\<forall>c. find (\<lambda>c. x c = Rocket.targetX r \<and> y c = Rocket.targetY r)
              (cities (updateRockets delta w)) = Some c \<longrightarrow> \<not> City.alive c) \<and>
      (\<forall>t. find (\<lambda>t. x t = Rocket.targetX r \<and> y t = Rocket.targetY r)
              (towers (updateRockets delta w)) = Some t \<longrightarrow> \<not> Tower.alive t)"
    using updateRockets_struck[of _ w delta]
    by (simp add: arrived_def tower_dead_at_def city_dead_at_def at_target_def[abs_def])
  show "gameState w = PLAYING \<longrightarrow>
      (\<forall>r\<in>set (rockets w). 1 \<le> Rocket.progress (advanceRocket (min dt 100) r) \<longrightarrow>
         advanceRocket (min dt 100) r \<notin> set (rockets (update dt w)) \<and>
         (\<forall>c. find (\<lambda>c. x c = Rocket.targetX r \<and> y c = Rocket.targetY r)
                 (cities (update dt w)) = Some c \<longrightarrow> \<not> City.alive c) \<and>
         (\<forall>t. find (\<lambda>t. x t = Rocket.targetX r \<and> y t = Rocket.targetY r)
                 (towers (update dt w)) = Some t \<longrightarrow> \<not> Tower.alive t))"
  proof (intro impI ballI)
    let ?d = "min dt 100"
    let ?w1 = "spawnRockets ?d w"
    fix r
    assume p: "gameState w = PLAYING" and r: "r \<in> set (rockets w)"
      and a: "1 \<le> Rocket.progress (advanceRocket ?d r)"
    obtain ns where "rockets ?w1 = rockets w @ ns"
      using spawnRockets_rockets[of ?d w] by blast
    then have r1: "r \<in> set (rockets ?w1)" using r by simp
    have st: "tower_dead_at r (towers (updateRockets ?d ?w1))"
      "city_dead_at r (cities (updateRockets ?d ?w1))"
      using updateRockets_struck[OF r1, of ?d] a by (simp_all add: arrived_def)
    have fr: "towers (update dt w) = towers (updateRockets ?d ?w1)"
      "cities (update dt w) = cities (updateRockets ?d ?w1)"
      by (simp_all add: update_playing[OF p] updateExplosions_frame updateInterceptors_frame)
    have "\<forall>q\<in>set (rockets (update dt w)). Rocket.progress q < 1"
      by (auto simp add: update_rockets[OF p])
    then have gone: "advanceRocket ?d r \<notin> set (rockets (update dt w))"
      using a by auto
    show "advanceRocket ?d r \<notin> set (rockets (update dt w)) \<and>
         (\<forall>c. find (\<lambda>c. x c = Rocket.targetX r \<and> y c = Rocket.targetY r)
                 (cities (update dt w)) = Some c \<longrightarrow> \<not> City.alive c) \<and>
         (\<forall>t. find (\<lambda>t. x t = Rocket.targetX r \<and> y t = Rocket.targetY r)
                 (towers (update dt w)) = Some t \<longrightarrow> \<not> Tower.alive t)"
      using gone st
      by (simp add: fr tower_dead_at_def city_dead_at_def at_target_def[abs_def])
  qed
qed

theorem impact_resolution_witness:
  "1 \<le> Rocket.progress (advanceRocket 16.67 (rockets impact_world ! 0)) \<and>
   rockets (updateRockets 16.67 impact_world) = [advanceRocket 16.67 (rockets impact_world ! 1)] \<and>
   map City.alive (cities (updateRockets 16.67 impact_world)) = [False] \<and>
   map Tower.alive (towers (updateRockets 16.67 impact_world)) = [True] \<and>
   map (\<lambda>e. (x e, y e, radius e, maxRadius e, expanding e))
     (explosions (updateRockets 16.67 impact_world)) = [(160, 560, 0, 40, True)]"
proof -
  have a: "1 \<le> Rocket.progress (advanceRocket 16.67 (rockets impact_world ! 0))"
    by (simp add: impact_world_def advanceRocket_def)
  have r: "filter (\<lambda>r. \<not> 1 \<le> Rocket.progress r) (map (advanceRocket 16.67) (rockets impact_world))
      = [advanceRocket 16.67 (rockets impact_world ! 1)]"
    by (simp add: impact_world_def advanceRocket_def)
  have c: "map City.alive (cities (updateRockets 16.67 impact_world)) = [False]"
    by (simp add: impact_world_def step_defs)
  have t: "map Tower.alive (towers (updateRockets 16.67 impact_world)) = [True]"
    by (simp add: impact_world_def step_defs)
  have e: "map (\<lambda>e. (x e, y e, radius e, maxRadius e, expanding e))
     (explosions (updateRockets 16.67 impact_world)) = [(160, 560, 0, 40, True)]"
    by (simp add: impact_world_def step_defs)
  show ?thesis
    using impact_resolution [of "16.67" impact_world "16.67"] a r c t e by simp
qed

text \<open>
  C6 (as amended). A tap handled while the phase is PLAYING, on a mounted canvas, with
  at least one tower alive, appends exactly 5 interceptors and changes nothing else of
  the game: each has as origin the position of an alive tower that is nearest to the tap
  coordinate, a target within 15 pixels of the coordinate on each axis, progress 0 and
  a speed of at least 0.12 and below 0.17. A tap in any other phase, or with no tower
  alive, changes nothing.
\<close>

theorem tap_fires_burst:
  "(gameState w = PLAYING \<and> list_ex Tower.alive (towers w) \<longrightarrow>
      (\<exists>tower ns. tower \<in> set (towers w) \<and> Tower.alive tower \<and>
         (\<forall>t\<in>set (towers w). Tower.alive t \<longrightarrow>
            distance \<lparr>x = cx - rl, y = cy - rt\<rparr> tower \<le> distance \<lparr>x = cx - rl, y = cy - rt\<rparr> t) \<and>
         interceptors (handleCanvasClick (Some (rl, rt)) cx cy w) = interceptors w @ ns \<and>
         length ns = 5 \<and>
         (\<forall>n\<in>set ns. burst_shot tower (cx - rl) (cy - rt) n)) \<and>
      rockets (handleCanvasClick (Some (rl, rt)) cx cy w) = rockets w \<and>
      explosions (handleCanvasClick (Some (rl, rt)) cx cy w) = explosions w \<and>
      cities (handleCanvasClick (Some (rl, rt)) cx cy w) = cities w \<and>
      towers (handleCanvasClick (Some (rl, rt)) cx cy w) = towers w \<and>
      score (handleCanvasClick (Some (rl, rt)) cx cy w) = score w \<and>
      gameState (handleCanvasClick (Some (rl, rt)) cx cy w) = gameState w) \<and>
   (gameState w \<noteq> PLAYING \<or> \<not> list_ex Tower.alive (towers w) \<longrightarrow>
      handleCanvasClick (Some (rl, rt)) cx cy w = w)"
proof (intro conjI impI)
  let ?p = "\<lparr>x = cx - rl, y = cy - rt\<rparr>"
  let ?av = "filter Tower.alive (towers w)"
  let ?tw = "hd (sort_key (distance ?p) ?av)"
  {
    assume a: "gameState w = PLAYING \<and> list_ex Tower.alive (towers w)"
    then have ne: "?av \<noteq> []" by (auto simp add: list_ex_iff filter_empty_conv)
    have hc: "handleCanvasClick (Some (rl, rt)) cx cy w =
        fireBurst 5 ?tw (cx - rl) (cy - rt) w"
      using a ne by (simp add: handleCanvasClick_def Let_def burstSize_def sort_key_Nil_iff)
    show "rockets (handleCanvasClick (Some (rl, rt)) cx cy w) = rockets w"
      "explosions (handleCanvasClick (Some (rl, rt)) cx cy w) = explosions w"
      "cities (handleCanvasClick (Some (rl, rt)) cx cy w) = cities w"
      "towers (handleCanvasClick (Some (rl, rt)) cx cy w) = towers w"
      "score (handleCanvasClick (Some (rl, rt)) cx cy w) = score w"
      "gameState (handleCanvasClick (Some (rl, rt)) cx cy w) = gameState w"
      by (simp_all add: hc fireBurst_frame)
    have tw: "?tw \<in> set ?av" "\<forall>t\<in>set ?av. distance ?p ?tw \<le> distance ?p t"
      using hd_sort_key_least[OF ne, of "distance ?p"] by auto
    obtain ns where ns: "interceptors (fireBurst 5 ?tw (cx - rl) (cy - rt) w) =
         interceptors w @ ns" "length ns = 5" "\<forall>n\<in>set ns. burst_shot ?tw (cx - rl) (cy - rt) n"
      using fireBurst_interceptors[of 5 ?tw "cx - rl" "cy - rt" w] by blast
    show "\<exists>tower ns. tower \<in> set (towers w) \<and> Tower.alive tower \<and>
         (\<forall>t\<in>set (towers w). Tower.alive t \<longrightarrow>
            distance ?p tower \<le> distance ?p t) \<and>
         interceptors (handleCanvasClick (Some (rl, rt)) cx cy w) = interceptors w @ ns \<and>
         length ns = 5 \<and>
         (\<forall>n\<in>set ns. burst_shot tower (cx - rl) (cy - rt) n)"
      using tw ns by (intro exI[of _ ?tw] exI[of _ ns]) (simp add: hc)
  }
  {
    assume "gameState w \<noteq> PLAYING \<or> \<not> list_ex Tower.alive (towers w)"
    then show "handleCanvasClick (Some (rl, rt)) cx cy w = w"
      by (auto simp add: handleCanvasClick_def Let_def list_ex_iff filter_empty_conv
          sort_key_Nil_iff)
  }
qed

theorem tap_fires_burst_witness:
  "gameState tap_world = PLAYING \<and> list_ex Tower.alive (towers tap_world) \<and>
   length (interceptors (handleCanvasClick (Some (0, 0)) 100 500 tap_world)) = 5 \<and>
   list_all (burst_shot (hd (towers tap_world)) 100 500)
     (interceptors (handleCanvasClick (Some (0, 0)) 100 500 tap_world)) \<and>
   gameState won_world \<noteq> PLAYING \<and>
   handleCanvasClick (Some (0, 0)) 100 500 won_world = won_world"
proof -
  have p: "gameState tap_world = PLAYING \<and> list_ex Tower.alive (towers tap_world)"
    by (simp add: tap_world_def)
  have i: "interceptors tap_world = []" "set (towers tap_world) = {hd (towers tap_world)}"
    by (simp_all add: tap_world_def)
  have q: "gameState won_world \<noteq> PLAYING" by (simp add: won_world_def)
  have "handleCanvasClick (Some (0, 0)) 100 500 won_world = won_world"
    using tap_fires_burst[of won_world 100 0 500 0] q by simp
  moreover have "length (interceptors (handleCanvasClick (Some (0, 0)) 100 500 tap_world)) = 5 \<and>
    list_all (burst_shot (hd (towers tap_world)) 100 500)
     (interceptors (handleCanvasClick (Some (0, 0)) 100 500 tap_world))"
    using tap_fires_burst[of tap_world 100 0 500 0] p i
    by (auto simp add: list_all_iff)
  ultimately show ?thesis using p q by simp
qed

text \<open>
  C6 as stated fails for a tap outside the phase PLAYING: after the game is won a tower
  is alive, and a tap appends nothing.
\<close>

theorem tap_gated_counterexample:
  "map Tower.alive (towers won_world) = [True] \<and>
   interceptors won_world = [] \<and>
   interceptors (handleCanvasClick (Some (0, 0)) 100 500 won_world) = []"
  by (simp add: won_world_def handleCanvasClick_def)



text \<open>
  C8 (as amended). With \<open>delta = min dt 100\<close>, a step in the phase PLAYING turns the
  collection of explosions into the advances of the explosions it held (and of those
  that impacts and detonations of the same step added), in their order, followed by the
  chain explosions of the step, which have radius 0. The advance of an expanding
  explosion adds \<open>1.5 * (delta / 16.67)\<close> to the radius and keeps it expanding exactly
  when the new radius is below maxRadius; the new radius is not clamped, so it can exceed
  maxRadius, by less than one increment when the radius was below maxRadius. The advance
  of a contracting explosion subtracts \<open>0.8 * (delta / 16.67)\<close> from the radius and
  removes the explosion exactly when the new radius is 0 or less.
\<close>

theorem explosion_lifecycle:
  "(gameState w = PLAYING \<longrightarrow>
      (\<exists>ns cs. explosions (update dt w) =
         List.map_filter (advanceExplosion (min dt 100)) (explosions w @ ns) @ cs \<and>
         (\<forall>c\<in>set cs. radius c = 0 \<and> expanding c))) \<and>
   (expanding e \<longrightarrow>
      advanceExplosion delta e =
        Some (e\<lparr>radius := radius e + 1.5 * (delta / 16.67),
               expanding := radius e + 1.5 * (delta / 16.67) < maxRadius e\<rparr>) \<and>
      (0 \<le> delta \<and> radius e < maxRadius e \<longrightarrow>
         radius e + 1.5 * (delta / 16.67) < maxRadius e + 1.5 * (delta / 16.67))) \<and>
   (\<not> expanding e \<longrightarrow>
      advanceExplosion delta e =
        (if radius e - 0.8 * (delta / 16.67) \<le> 0 then None
         else Some (e\<lparr>radius := radius e - 0.8 * (delta / 16.67)\<rparr>)))"
proof (intro conjI impI)
  assume "gameState w = PLAYING"
  from update_explosions[OF this, of dt]
  show "\<exists>ns cs. explosions (update dt w) =
         List.map_filter (advanceExplosion (min dt 100)) (explosions w @ ns) @ cs \<and>
         (\<forall>c\<in>set cs. radius c = 0 \<and> expanding c)"
    unfolding live_explosions_def fresh_explosion_def by blast
next
  assume "expanding e"
  then show "advanceExplosion delta e =
        Some (e\<lparr>radius := radius e + 1.5 * (delta / 16.67),
               expanding := radius e + 1.5 * (delta / 16.67) < maxRadius e\<rparr>)"
    by (simp add: advanceExplosion_def Let_def not_le)
next
  assume "0 \<le> delta \<and> radius e < maxRadius e"
  then show "radius e + 1.5 * (delta / 16.67) < maxRadius e + 1.5 * (delta / 16.67)"
    by simp
next
  assume "\<not> expanding e"
  then show "advanceExplosion delta e =
        (if radius e - 0.8 * (delta / 16.67) \<le> 0 then None
         else Some (e\<lparr>radius := radius e - 0.8 * (delta / 16.67)\<rparr>))"
    by (simp add: advanceExplosion_def Let_def)
qed

theorem explosion_lifecycle_witness:
  "gameState swelling_world = PLAYING \<and>
   expanding (hd (explosions swelling_world)) \<and>
   advanceExplosion 16.67 (hd (explosions swelling_world)) =
     Some ((hd (explosions swelling_world))\<lparr>radius := 40.5, expanding := False\<rparr>) \<and>
   \<not> expanding ((hd (explosions swelling_world))\<lparr>radius := 0.5, expanding := False\<rparr>) \<and>
   advanceExplosion 16.67 ((hd (explosions swelling_world))\<lparr>radius := 0.5, expanding := False\<rparr>)
     = None"
proof -
  have p: "gameState swelling_world = PLAYING \<and> expanding (hd (explosions swelling_world))"
    by (simp add: swelling_world_def)
  have q: "\<not> expanding ((hd (explosions swelling_world))\<lparr>radius := 0.5, expanding := False\<rparr>)"
    by simp
  have "advanceExplosion 16.67 (hd (explosions swelling_world)) =
     Some ((hd (explosions swelling_world))\<lparr>radius := 40.5, expanding := False\<rparr>)"
    using explosion_lifecycle[of swelling_world 16 "hd (explosions swelling_world)" "16.67"] p
    by (simp add: swelling_world_def)
  moreover have
    "advanceExplosion 16.67 ((hd (explosions swelling_world))\<lparr>radius := 0.5, expanding := False\<rparr>)
     = None"
    using explosion_lifecycle[of swelling_world 16
        "(hd (explosions swelling_world))\<lparr>radius := 0.5, expanding := False\<rparr>" "16.67"] q
    by (simp add: swelling_world_def)
  ultimately show ?thesis using p q by simp
qed

text \<open>
  C8 as stated fails: an expanding explosion with radius 39 and maxRadius 40 has radius
  40.5 after a step of 16.67 time units.
\<close>

theorem radius_overshoot_counterexample:
  "gameState swelling_world = PLAYING \<and>
   map radius (explosions swelling_world) = [39] \<and>
   map maxRadius (explosions swelling_world) = [40] \<and>
   map expanding (explosions swelling_world) = [True] \<and>
   map radius (explosions (update 16.67 swelling_world)) = [40.5] \<and>
   map maxRadius (explosions (update 16.67 swelling_world)) = [40]"
  by (simp add: swelling_world_def step_defs)

text \<open>
  C10. The explosion phase of a step leaves each chain explosion that it spawns as it
  was created: the collection ends with the advanced explosions of the start of the
  phase, followed by as many chain explosions as rockets were removed, each still with
  radius 0, expanding and with maxRadius 40. With radius 0 it contains no rocket
  strictly, and the rockets the phase removes are those inside an explosion of the start
  of the phase. In a later step the chain explosion is advanced like any other: its
  radius becomes \<open>1.5 * (delta' / 16.67)\<close> and it is among the live explosions that
  rockets are tested against.
\<close>

theorem chain_waits_a_step:
  "\<exists>cs. explosions (updateExplosions delta w) = live_explosions delta (explosions w) @ cs \<and>
     int (length cs) * 20 = score (updateExplosions delta w) - score w \<and>
     length cs = length (rockets w) - length (rockets (updateExplosions delta w)) \<and>
     rockets (updateExplosions delta w) =
       filter (\<lambda>r. \<not> list_ex (\<lambda>e. hits e r) (live_explosions delta (explosions w)))
         (rockets w) \<and>
     (\<forall>c\<in>set cs. radius c = 0 \<and> expanding c \<and> maxRadius c = 40 \<and>
        (\<forall>r. \<not> hits c r) \<and>
        (\<forall>delta'. advanceExplosion delta' c =
           Some (c\<lparr>radius := 1.5 * (delta' / 16.67),
                  expanding := 1.5 * (delta' / 16.67) < 40\<rparr>)) \<and>
        (\<forall>delta' es. c \<in> set es \<longrightarrow>
           c\<lparr>radius := 1.5 * (delta' / 16.67), expanding := 1.5 * (delta' / 16.67) < 40\<rparr>
             \<in> set (live_explosions delta' es)))"
proof -
  let ?D = "\<lambda>r. \<exists>e\<in>set (live_explosions delta (explosions w)). hits e r"
  obtain cs where cs: "explosions (updateExplosions delta w) =
        live_explosions delta (explosions w) @ cs"
      "chains_for (filter ?D (rockets w)) cs"
    using updateExplosions_explosions[of delta w] by blast
  have len: "length cs = length (filter ?D (rockets w))"
    using cs(2) by (rule chains_for_length)
  have sc: "int (length cs) * 20 = score (updateExplosions delta w) - score w"
    by (simp add: updateExplosions_score len)
  have rk: "rockets (updateExplosions delta w) =
       filter (\<lambda>r. \<not> list_ex (\<lambda>e. hits e r) (live_explosions delta (explosions w)))
         (rockets w)"
    by (simp add: updateExplosions_rockets list_ex_iff)
  have "length (filter ?D (rockets w)) + length (filter (\<lambda>r. \<not> ?D r) (rockets w))
      = length (rockets w)"
    by (rule sum_length_filter_compl)
  then have ln: "length cs = length (rockets w) - length (rockets (updateExplosions delta w))"
    by (simp add: len updateExplosions_rockets)
  have each: "\<forall>c\<in>set cs. radius c = 0 \<and> expanding c \<and> maxRadius c = 40 \<and>
        (\<forall>r. \<not> hits c r) \<and>
        (\<forall>delta'. advanceExplosion delta' c =
           Some (c\<lparr>radius := 1.5 * (delta' / 16.67),
                  expanding := 1.5 * (delta' / 16.67) < 40\<rparr>)) \<and>
        (\<forall>delta' es. c \<in> set es \<longrightarrow>
           c\<lparr>radius := 1.5 * (delta' / 16.67), expanding := 1.5 * (delta' / 16.67) < 40\<rparr>
             \<in> set (live_explosions delta' es))"
  proof
    fix c assume "c \<in> set cs"
    then have f: "radius c = 0" "expanding c" "maxRadius c = 40"
      using chains_for_fresh[OF cs(2)] by (auto simp add: chain_of_def fresh_explosion_def)
    have nh: "\<forall>r. \<not> hits c r" using hits_needs_radius[of c] f(1) by auto
    have adv: "\<And>delta'. advanceExplosion delta' c =
           Some (c\<lparr>radius := 1.5 * (delta' / 16.67),
                  expanding := 1.5 * (delta' / 16.67) < 40\<rparr>)"
      using f by (simp add: advanceExplosion_def Let_def not_le)
    have "\<And>delta' es. c \<in> set es \<Longrightarrow>
           c\<lparr>radius := 1.5 * (delta' / 16.67), expanding := 1.5 * (delta' / 16.67) < 40\<rparr>
             \<in> set (live_explosions delta' es)"
    proof -
      fix delta' es assume "c \<in> set es"
      then have "the (advanceExplosion delta' c) \<in> set (live_explosions delta' es)"
        unfolding live_explosions_def map_filter_def
        by (auto simp add: adv intro!: image_eqI[where x = c])
      then show "c\<lparr>radius := 1.5 * (delta' / 16.67), expanding := 1.5 * (delta' / 16.67) < 40\<rparr>
             \<in> set (live_explosions delta' es)"
        by (simp add: adv)
    qed
    then show "radius c = 0 \<and> expanding c \<and> maxRadius c = 40 \<and>
        (\<forall>r. \<not> hits c r) \<and>
        (\<forall>delta'. advanceExplosion delta' c =
           Some (c\<lparr>radius := 1.5 * (delta' / 16.67),
                  expanding := 1.5 * (delta' / 16.67) < 40\<rparr>)) \<and>
        (\<forall>delta' es. c \<in> set es \<longrightarrow>
           c\<lparr>radius := 1.5 * (delta' / 16.67), expanding := 1.5 * (delta' / 16.67) < 40\<rparr>
             \<in> set (live_explosions delta' es))"
      using f nh adv by blast
  qed
  show ?thesis using cs(1) sc ln rk each by blast
qed

theorem chain_waits_a_step_witness:
  "length (rockets blast_world) = 3 \<and>
   length (explosions blast_world) = 1 \<and>
   length (rockets (updateExplosions 16.67 blast_world)) = 1 \<and>
   length (explosions (updateExplosions 16.67 blast_world)) = 3 \<and>
   map radius (drop 1 (explosions (updateExplosions 16.67 blast_world))) = [0, 0] \<and>
   map expanding (drop 1 (explosions (updateExplosions 16.67 blast_world))) = [True, True]"
proof -
  have r: "length (rockets blast_world) = 3" "length (explosions blast_world) = 1"
    by (simp_all add: blast_world_def)
  have n: "filter (\<lambda>r. \<not> list_ex (\<lambda>e. hits e r) (live_explosions 16.67 (explosions blast_world)))
       (rockets blast_world) = [rockets blast_world ! 1]"
    by (simp add: blast_world_def live_explosions_def map_filter_def
        advanceExplosion_def hits_eval rocketPos_def)
  have l: "length (live_explosions 16.67 (explosions blast_world)) = 1"
    by (simp add: blast_world_def live_explosions_def map_filter_def advanceExplosion_def)
  obtain cs where cs:
    "explosions (updateExplosions 16.67 blast_world) =
       live_explosions 16.67 (explosions blast_world) @ cs"
    "length cs = length (rockets blast_world) - length (rockets (updateExplosions 16.67 blast_world))"
    "rockets (updateExplosions 16.67 blast_world) =
       filter (\<lambda>r. \<not> list_ex (\<lambda>e. hits e r) (live_explosions 16.67 (explosions blast_world)))
         (rockets blast_world)"
    "\<forall>c\<in>set cs. radius c = 0 \<and> expanding c"
    using chain_waits_a_step [of "16.67" blast_world] by blast
  have k: "length (rockets (updateExplosions 16.67 blast_world)) = 1"
    unfolding cs(3) n by simp
  have l2: "length cs = 2" using cs(2) k r by simp
  then obtain a b where ab: "cs = [a, b]"
    by (cases cs; cases "tl cs"; cases "tl (tl cs)") auto
  show ?thesis
    using r k l cs(1) cs(4) by (simp add: ab)
qed

text \<open>
  C9 (as amended). Rendering changes neither an entity collection nor the score, the
  phase, the timers or the dimensions: it only takes one value from \<open>Math.random()\<close>
  for each rocket it draws (the size of the rocket's flame). Two renderings of states
  with the same collections and dimensions emit the same calls whenever the random
  values they take are the same, so always when there is no rocket.
\<close>

theorem draw_reads_only:
  "snd (draw surface w) =
     w\<lparr>entropy := (\<lambda>n. entropy w (n + (if surface then length (rockets w) else 0)))\<rparr> \<and>
   (cities w' = cities w \<and> towers w' = towers w \<and> rockets w' = rockets w \<and>
    interceptors w' = interceptors w \<and> explosions w' = explosions w \<and>
    dimensions w' = dimensions w \<and>
    (\<forall>i<length (rockets w). entropy w' i = entropy w i)
    \<longrightarrow> fst (draw surface w') = fst (draw surface w))"
proof (intro conjI impI)
  show "snd (draw surface w) =
     w\<lparr>entropy := (\<lambda>n. entropy w (n + (if surface then length (rockets w) else 0)))\<rparr>"
    by (simp add: draw_state)
  assume a: "cities w' = cities w \<and> towers w' = towers w \<and> rockets w' = rockets w \<and>
    interceptors w' = interceptors w \<and> explosions w' = explosions w \<and>
    dimensions w' = dimensions w \<and>
    (\<forall>i<length (rockets w). entropy w' i = entropy w i)"
  then have "fst (drawRockets (rockets w) w') = fst (drawRockets (rockets w) w)"
    by (intro drawRockets_cmds_cong) simp
  then show "fst (draw surface w') = fst (draw surface w)"
    using a by (simp add: draw_cmds)
qed

theorem draw_reads_only_witness:
  "rockets (snd (draw True flame_world)) = rockets flame_world \<and>
   score (snd (draw True flame_world)) = score flame_world \<and>
   gameState (snd (draw True flame_world)) = gameState flame_world \<and>
   length (rockets (flame_world\<lparr>rockets := []\<rparr>)) = 0 \<and>
   fst (draw True (snd (draw True (flame_world\<lparr>rockets := []\<rparr>))))
     = fst (draw True (flame_world\<lparr>rockets := []\<rparr>))"
proof -
  let ?w = "flame_world\<lparr>rockets := []\<rparr>"
  have s: "snd (draw True flame_world) =
      flame_world\<lparr>entropy := (\<lambda>n. entropy flame_world (n + length (rockets flame_world)))\<rparr>"
    using draw_reads_only [of True flame_world flame_world] by simp
  have s': "snd (draw True ?w) = ?w\<lparr>entropy := (\<lambda>n. entropy ?w (n + length (rockets ?w)))\<rparr>"
    using draw_reads_only [of True ?w ?w] by simp
  have "fst (draw True (snd (draw True ?w))) = fst (draw True ?w)"
    using draw_reads_only [of True ?w "snd (draw True ?w)"] by (simp add: s')
  then show ?thesis by (simp add: s)
qed

text \<open>
  C9 as stated fails: with a rocket in flight, rendering twice in a row, nothing of the
  game having changed in between, emits different calls, because the flame size is
  random.
\<close>

theorem draw_flame_counterexample:
  "rockets (snd (draw True flame_world)) = rockets flame_world \<and>
   interceptors (snd (draw True flame_world)) = interceptors flame_world \<and>
   explosions (snd (draw True flame_world)) = explosions flame_world \<and>
   cities (snd (draw True flame_world)) = cities flame_world \<and>
   towers (snd (draw True flame_world)) = towers flame_world \<and>
   score (snd (draw True flame_world)) = score flame_world \<and>
   dimensions (snd (draw True flame_world)) = dimensions flame_world \<and>
   fst (draw True (snd (draw True flame_world))) \<noteq> fst (draw True flame_world)"
  by (simp add: draw_state draw_cmds flame_world_def zero_then_half_def Math_random_def
      drawRocket_def Let_def rand_zero.rep_eq rand_half.rep_eq)

end
